theory Spec2Isabelle
  imports Complex_Main "HOL-Library.AList" "HOL-Library.Multiset" "HOL-Library.Log_Nat"
begin

section \<open>Data model (types.ts)\<close>

text \<open>
  A JavaScript number is a binary64 value; the model holds the rational it denotes, and
  every arithmetic operation rounds its exact result to the nearest binary64 value, ties
  to the even significand. NaN, the infinities and overflow are not in the model: the
  scores of the slider page lie between 1 and 100. Identifiers are strings. A
  \<open>Map<string, number>\<close> is an association list in insertion order (\<open>get\<close> is
  \<^const>\<open>map_of\<close>, \<open>set\<close> is \<^const>\<open>AList.update\<close>, \<open>delete\<close> is
  \<^const>\<open>AList.delete\<close>); a \<open>Set<string>\<close> is the list of its members in insertion
  order.
\<close>

subsection \<open>Numbers\<close>

definition pow2 :: "int \<Rightarrow> rat" where
  "pow2 e = (if 0 \<le> e then 2 ^ nat e else 1 / 2 ^ nat (- e))"

text \<open>The exponent \<open>e\<close> with \<open>2 ^ e \<le> |x| < 2 ^ (e + 1)\<close>, for \<open>x\<close> other than 0.\<close>

definition binary_exponent :: "rat \<Rightarrow> int" where
  "binary_exponent x =
     (let (p, q) = quotient_of \<bar>x\<bar>;
          e0 = bitlen p - bitlen q
      in if pow2 e0 \<le> \<bar>x\<bar> then e0 else e0 - 1)"

definition round_half_even :: "rat \<Rightarrow> int" where
  "round_half_even m =
     (let f = \<lfloor>m\<rfloor>; r = m - of_int f
      in if r < 1 / 2 then f
         else if 1 / 2 < r then f + 1
         else if even f then f else f + 1)"

text \<open>
  The binary64 value nearest to \<open>x\<close>: 53 significant bits, the least exponent being
  \<open>- 1022\<close> (below it the spacing stays \<open>2 ^ (- 1074)\<close>).
\<close>

definition binary64 :: "rat \<Rightarrow> rat" where
  "binary64 x =
     (if x = 0 then 0
      else let ulp = pow2 (max (binary_exponent x) (- 1022) - 52)
           in of_int (round_half_even (x / ulp)) * ulp)"

text \<open>The operators \<open>+\<close>, \<open>*\<close> and \<open>/\<close> on numbers.\<close>

definition js_add :: "rat \<Rightarrow> rat \<Rightarrow> rat" where
  "js_add a b = binary64 (a + b)"

definition js_mul :: "rat \<Rightarrow> rat \<Rightarrow> rat" where
  "js_mul a b = binary64 (a * b)"

definition js_div :: "rat \<Rightarrow> rat \<Rightarrow> rat" where
  "js_div a b = binary64 (a / b)"

text \<open>
  \<open>Math.round\<close> returns the nearest integer, the greater one at a tie; it is exact.
  \<open>round2 x\<close> is the expression \<open>Math.round(x * 100) / 100\<close>.
\<close>

definition Math_round :: "rat \<Rightarrow> int" where
  "Math_round x = \<lfloor>x + 1 / 2\<rfloor>"

definition round2 :: "rat \<Rightarrow> rat" where
  "round2 x = js_div (of_int (Math_round (js_mul x 100))) 100"

subsection \<open>Entities, relations and the graph\<close>

record item_entity =
  item_id :: string
  item_name :: string
  item_emoji :: string

text \<open>The field \<open>rank_type\<close> of a rank list has the literal type \<open>'weighted_rank'\<close>.\<close>

record rank_list_entity =
  rl_id :: string
  rl_name :: string

text \<open>
  The converter inspects entities by shape (\<open>'rank_type' in entity\<close>, \<open>'emoji' in entity\<close>),
  so an entity of a knowledge graph is an object with the two optional fields.
\<close>

record entity =
  ent_id :: string
  ent_name :: string
  ent_rank_type :: "string option"
  ent_emoji :: "string option"

definition of_item :: "item_entity \<Rightarrow> entity" where
  "of_item i = \<lparr>ent_id = item_id i, ent_name = item_name i,
                ent_rank_type = None, ent_emoji = Some (item_emoji i)\<rparr>"

definition of_rank_list :: "rank_list_entity \<Rightarrow> entity" where
  "of_rank_list r = \<lparr>ent_id = rl_id r, ent_name = rl_name r,
                     ent_rank_type = Some ''weighted_rank'', ent_emoji = None\<rparr>"

record relation =
  rel_id :: string
  rel_from :: string
  rel_to :: string
  rel_score :: rat

record knowledge_graph =
  entities :: "entity list"
  relations :: "relation list"

section \<open>Slider mode (SliderRankingPage.tsx)\<close>

text \<open>
  Every page keeps the item being dragged; the free and the slider page keep the score
  map and the set of placed items as well.
\<close>

record drag_state =
  draggedItem :: "item_entity option"

record ranking_state = drag_state +
  itemScores :: "(string \<times> rat) list"
  rankedItemIds :: "string list"

record slider_state = ranking_state +
  activeSliderItemId :: "string option"
  sortedItemOrder :: "string list"
  dragOverItemId :: "string option"

text \<open>\<open>scores.get(id) || 50\<close>: a missing score and the score 0 both read as 50.\<close>

definition scoreOr50 :: "(string \<times> rat) list \<Rightarrow> string \<Rightarrow> rat" where
  "scoreOr50 scores k = (case map_of scores k of None \<Rightarrow> 50 | Some s \<Rightarrow> if s = 0 then 50 else s)"

text \<open>
  \<open>items.sort((a, b) => scoreB - scoreA)\<close>: the stable sort of the array, descending
  by \<open>score || 50\<close>.
\<close>

definition sortByScore :: "(string \<times> rat) list \<Rightarrow> item_entity list \<Rightarrow> item_entity list" where
  "sortByScore scores xs = sort_key (\<lambda>a. - scoreOr50 scores (item_id a)) xs"

definition getRankedItems :: "item_entity list \<Rightarrow> string list \<Rightarrow> item_entity list" where
  "getRankedItems initialItems rankedIds = filter (\<lambda>item. item_id item \<in> set rankedIds) initialItems"

fun findIndex :: "('a \<Rightarrow> bool) \<Rightarrow> 'a list \<Rightarrow> int" where
  "findIndex P [] = - 1"
| "findIndex P (x # xs) =
     (if P x then 0 else (let i = findIndex P xs in if i = - 1 then - 1 else i + 1))"

definition updateSortedOrder :: "item_entity list \<Rightarrow> string list \<Rightarrow> (string \<times> rat) list \<Rightarrow> string list" where
  "updateSortedOrder initialItems rankedIds scores =
     map item_id (sortByScore scores (getRankedItems initialItems rankedIds))"

definition handleDragStart :: "item_entity \<Rightarrow> ('a drag_state_scheme) \<Rightarrow> 'a drag_state_scheme" where
  "handleDragStart item st = st\<lparr>draggedItem := Some item\<rparr>"

definition handleDropToRanked :: "item_entity list \<Rightarrow> slider_state \<Rightarrow> slider_state" where
  "handleDropToRanked initialItems st =
     (case draggedItem st of
        None \<Rightarrow> st
      | Some d \<Rightarrow>
          if item_id d \<notin> set (rankedItemIds st) then
            let newRankedIds = rankedItemIds st @ [item_id d];
                newScores =
                  (if map_of (itemScores st) (item_id d) = None then
                     let existingScores = map snd (itemScores st);
                         scoreToAssign =
                           (if length existingScores > 0
                            then round2 (js_div (js_add 1 (min_list existingScores)) 2)
                            else 1)
                     in AList.update (item_id d) scoreToAssign (itemScores st)
                   else itemScores st)
            in st\<lparr>rankedItemIds := newRankedIds, itemScores := newScores,
                  sortedItemOrder := updateSortedOrder initialItems newRankedIds newScores,
                  draggedItem := None\<rparr>
          else st\<lparr>draggedItem := None\<rparr>)"

definition handleDropToUnranked :: "item_entity list \<Rightarrow> slider_state \<Rightarrow> slider_state" where
  "handleDropToUnranked initialItems st =
     (case draggedItem st of
        None \<Rightarrow> st
      | Some d \<Rightarrow>
          let newRankedIds = removeAll (item_id d) (rankedItemIds st);
              newScores = AList.delete (item_id d) (itemScores st)
          in st\<lparr>rankedItemIds := newRankedIds, itemScores := newScores,
                sortedItemOrder := updateSortedOrder initialItems newRankedIds newScores,
                draggedItem := None, dragOverItemId := None\<rparr>)"

text \<open>
  \<open>sortedItems\<close> of \<open>handleDropOnItem\<close>: the ranked items in the order of the catalogue,
  sorted descending by score.
\<close>

definition sortedItems :: "item_entity list \<Rightarrow> slider_state \<Rightarrow> item_entity list" where
  "sortedItems initialItems st =
     sortByScore (itemScores st) (getRankedItems initialItems (rankedItemIds st))"

text \<open>
  The score that \<open>handleDropOnItem\<close> assigns, or \<open>None\<close> where it returns early
  (the dragged item already sits directly above the target).
\<close>

definition dropOnItemScore ::
  "item_entity list \<Rightarrow> item_entity \<Rightarrow> item_entity \<Rightarrow> slider_state \<Rightarrow> rat option" where
  "dropOnItemScore initialItems d targetItem st =
     (let draggedIndex = findIndex (\<lambda>item. item_id item = item_id d) (sortedItems initialItems st);
          targetIndex = findIndex (\<lambda>item. item_id item = item_id targetItem) (sortedItems initialItems st)
      in if draggedIndex \<noteq> - 1 \<and> draggedIndex = targetIndex - 1 then None
         else
           let itemAbove = (if targetIndex > 0
                            then Some (sortedItems initialItems st ! nat (targetIndex - 1))
                            else None);
               scoreBelow = (case map_of (itemScores st) (item_id targetItem) of
                               Some s \<Rightarrow> s | None \<Rightarrow> 50)
           in (case itemAbove of
                 Some a \<Rightarrow>
                   if item_id a \<noteq> item_id d then
                     let numAbove = (case map_of (itemScores st) (item_id a) of
                                       Some s \<Rightarrow> s | None \<Rightarrow> 50)
                     in Some (round2 (js_div (js_add numAbove scoreBelow) 2))
                   else None
               | None \<Rightarrow> Some (round2 (js_div (js_add 100 scoreBelow) 2))))"

definition handleDropOnItem :: "item_entity list \<Rightarrow> item_entity \<Rightarrow> slider_state \<Rightarrow> slider_state" where
  "handleDropOnItem initialItems targetItem st =
     (case draggedItem st of
        None \<Rightarrow> st\<lparr>dragOverItemId := None\<rparr>
      | Some d \<Rightarrow>
          if item_id d = item_id targetItem then st\<lparr>dragOverItemId := None\<rparr>
          else
            (case dropOnItemScore initialItems d targetItem st of
               None \<Rightarrow> st\<lparr>draggedItem := None, dragOverItemId := None\<rparr>
             | Some scoreToAssign \<Rightarrow>
                 let newScores = AList.update (item_id d) scoreToAssign (itemScores st);
                     newRankedIds =
                       (if item_id d \<in> set (rankedItemIds st) then rankedItemIds st
                        else rankedItemIds st @ [item_id d])
                 in st\<lparr>itemScores := newScores, rankedItemIds := newRankedIds,
                       sortedItemOrder := updateSortedOrder initialItems newRankedIds newScores,
                       draggedItem := None, dragOverItemId := None\<rparr>))"

definition handleScoreChange_slider :: "string \<Rightarrow> rat \<Rightarrow> slider_state \<Rightarrow> slider_state" where
  "handleScoreChange_slider itemId v st =
     st\<lparr>itemScores := AList.update itemId (round2 v) (itemScores st)\<rparr>"

definition handleSliderChangeStart :: "string \<Rightarrow> slider_state \<Rightarrow> slider_state" where
  "handleSliderChangeStart itemId st = st\<lparr>activeSliderItemId := Some itemId\<rparr>"

definition handleSliderChangeEnd :: "item_entity list \<Rightarrow> slider_state \<Rightarrow> slider_state" where
  "handleSliderChangeEnd initialItems st =
     st\<lparr>activeSliderItemId := None,
        sortedItemOrder := updateSortedOrder initialItems (rankedItemIds st) (itemScores st)\<rparr>"

definition handleReset_slider :: "slider_state \<Rightarrow> slider_state" where
  "handleReset_slider st = st\<lparr>itemScores := [], rankedItemIds := []\<rparr>"

definition slider_init :: slider_state where
  "slider_init = \<lparr>draggedItem = None, itemScores = [], rankedItemIds = [],
                  activeSliderItemId = None, sortedItemOrder = [], dragOverItemId = None\<rparr>"

subsection \<open>One drop event\<close>

text \<open>
  A handler reads the state of the render that created it and calls setters; the calls
  take effect after the handlers of the event have returned, the last call for a state
  variable giving its new value. The setter calls of a handler are a record of optional
  values, \<open>None\<close> where the setter is not called. Neither drop handler sets
  \<open>activeSliderItemId\<close>.
\<close>

record slider_writes =
  set_itemScores :: "(string \<times> rat) list option"
  set_rankedItemIds :: "string list option"
  set_sortedItemOrder :: "string list option"
  set_draggedItem :: "item_entity option option"
  set_dragOverItemId :: "string option option"

definition no_writes :: slider_writes where
  "no_writes = \<lparr>set_itemScores = None, set_rankedItemIds = None, set_sortedItemOrder = None,
                 set_draggedItem = None, set_dragOverItemId = None\<rparr>"

definition apply_writes :: "slider_writes \<Rightarrow> slider_state \<Rightarrow> slider_state" where
  "apply_writes w st =
     st\<lparr>itemScores := (case set_itemScores w of Some v \<Rightarrow> v | None \<Rightarrow> itemScores st),
        rankedItemIds := (case set_rankedItemIds w of Some v \<Rightarrow> v | None \<Rightarrow> rankedItemIds st),
        sortedItemOrder := (case set_sortedItemOrder w of Some v \<Rightarrow> v | None \<Rightarrow> sortedItemOrder st),
        draggedItem := (case set_draggedItem w of Some v \<Rightarrow> v | None \<Rightarrow> draggedItem st),
        dragOverItemId := (case set_dragOverItemId w of Some v \<Rightarrow> v | None \<Rightarrow> dragOverItemId st)\<rparr>"

text \<open>The setter calls of \<open>handleDropOnItem\<close>, in the state \<open>st\<close> of its render.\<close>

definition handleDropOnItem_writes ::
  "item_entity list \<Rightarrow> item_entity \<Rightarrow> slider_state \<Rightarrow> slider_writes" where
  "handleDropOnItem_writes initialItems targetItem st =
     (case draggedItem st of
        None \<Rightarrow> no_writes\<lparr>set_dragOverItemId := Some None\<rparr>
      | Some d \<Rightarrow>
          if item_id d = item_id targetItem then no_writes\<lparr>set_dragOverItemId := Some None\<rparr>
          else
            (case dropOnItemScore initialItems d targetItem st of
               None \<Rightarrow> no_writes\<lparr>set_draggedItem := Some None, set_dragOverItemId := Some None\<rparr>
             | Some scoreToAssign \<Rightarrow>
                 let newScores = AList.update (item_id d) scoreToAssign (itemScores st);
                     newRankedIds =
                       (if item_id d \<in> set (rankedItemIds st) then rankedItemIds st
                        else rankedItemIds st @ [item_id d])
                 in \<lparr>set_itemScores = Some newScores,
                     set_rankedItemIds =
                       (if item_id d \<notin> set (rankedItemIds st) then Some newRankedIds else None),
                     set_sortedItemOrder = Some (updateSortedOrder initialItems newRankedIds newScores),
                     set_draggedItem = Some None, set_dragOverItemId = Some None\<rparr>))"

text \<open>The setter calls of \<open>handleDropToRanked\<close>, in the state \<open>st\<close> of its render.\<close>

definition handleDropToRanked_writes :: "item_entity list \<Rightarrow> slider_state \<Rightarrow> slider_writes" where
  "handleDropToRanked_writes initialItems st =
     (case draggedItem st of
        None \<Rightarrow> no_writes
      | Some d \<Rightarrow>
          if item_id d \<notin> set (rankedItemIds st) then
            let newRankedIds = rankedItemIds st @ [item_id d];
                newScores =
                  (if map_of (itemScores st) (item_id d) = None then
                     let existingScores = map snd (itemScores st);
                         scoreToAssign =
                           (if length existingScores > 0
                            then round2 (js_div (js_add 1 (min_list existingScores)) 2)
                            else 1)
                     in AList.update (item_id d) scoreToAssign (itemScores st)
                   else itemScores st)
            in \<lparr>set_itemScores =
                  (if map_of (itemScores st) (item_id d) = None then Some newScores else None),
                set_rankedItemIds = Some newRankedIds,
                set_sortedItemOrder = Some (updateSortedOrder initialItems newRankedIds newScores),
                set_draggedItem = Some None, set_dragOverItemId = None\<rparr>
          else no_writes\<lparr>set_draggedItem := Some None\<rparr>)"

text \<open>
  A drop on a ranked item. The element of the item has \<open>onDrop={() => handleDropOnItem(item)}\<close>
  and lies inside the ranked area, which has \<open>onDrop={handleDropToRanked}\<close>; the handler of
  the item does not stop the propagation, so the event reaches the area as well. Both
  handlers belong to the same render and read the same state.
\<close>

definition dropOnItemEvent :: "item_entity list \<Rightarrow> item_entity \<Rightarrow> slider_state \<Rightarrow> slider_state" where
  "dropOnItemEvent initialItems targetItem st =
     apply_writes (handleDropToRanked_writes initialItems st)
       (apply_writes (handleDropOnItem_writes initialItems targetItem st) st)"

text \<open>
  The invariant of a session: the members of the set are distinct, and the score map has
  one entry for each placed item and no other. The scores of the placed items are listed
  in the order of placement.
\<close>

definition slider_inv :: "slider_state \<Rightarrow> bool" where
  "slider_inv st \<longleftrightarrow>
     distinct (map fst (itemScores st)) \<and> distinct (rankedItemIds st) \<and>
     set (map fst (itemScores st)) = set (rankedItemIds st)"

definition placedScores :: "slider_state \<Rightarrow> rat list" where
  "placedScores st = List.map_filter (map_of (itemScores st)) (rankedItemIds st)"

text \<open>The events of a slider-mode session, and the states a session reaches.\<close>

datatype slider_event =
    SliderDragStart item_entity
  | SliderDropToRanked
  | SliderDropToUnranked
  | SliderDropOnItem item_entity
  | SliderScoreChange string rat
  | SliderChangeStart string
  | SliderChangeEnd
  | SliderReset

fun slider_step :: "item_entity list \<Rightarrow> slider_state \<Rightarrow> slider_event \<Rightarrow> slider_state" where
  "slider_step initialItems st (SliderDragStart item) = handleDragStart item st"
| "slider_step initialItems st SliderDropToRanked = handleDropToRanked initialItems st"
| "slider_step initialItems st SliderDropToUnranked = handleDropToUnranked initialItems st"
| "slider_step initialItems st (SliderDropOnItem targetItem) = handleDropOnItem initialItems targetItem st"
| "slider_step initialItems st (SliderScoreChange itemId v) = handleScoreChange_slider itemId v st"
| "slider_step initialItems st (SliderChangeStart itemId) = handleSliderChangeStart itemId st"
| "slider_step initialItems st SliderChangeEnd = handleSliderChangeEnd initialItems st"
| "slider_step initialItems st SliderReset = handleReset_slider st"

definition slider_run :: "item_entity list \<Rightarrow> slider_event list \<Rightarrow> slider_state" where
  "slider_run initialItems evs = foldl (slider_step initialItems) slider_init evs"

subsection \<open>An example session\<close>

definition ex_item :: "string \<Rightarrow> item_entity" where
  "ex_item k = \<lparr>item_id = k, item_name = k, item_emoji = ''*''\<rparr>"

definition ex_items :: "item_entity list" where
  "ex_items = map ex_item [''a'', ''b'', ''c'', ''n'']"

definition ex_slider :: slider_state where
  "ex_slider = \<lparr>draggedItem = Some (ex_item ''n''),
                 itemScores = [(''a'', 80), (''b'', 50), (''c'', 20)],
                 rankedItemIds = [''a'', ''b'', ''c''],
                 activeSliderItemId = None, sortedItemOrder = [''a'', ''b'', ''c''],
                 dragOverItemId = None\<rparr>"

text \<open>
  The same items with scores that do not follow the order of the catalogue, and a state
  whose least score is the number written \<open>1.01\<close>.
\<close>

definition ex_unsorted :: slider_state where
  "ex_unsorted = ex_slider\<lparr>itemScores := [(''a'', 50), (''b'', 20), (''c'', 80)]\<rparr>"

definition ex_tie :: slider_state where
  "ex_tie = ex_slider\<lparr>itemScores := [(''a'', 50), (''b'', binary64 (101 / 100)), (''c'', 80)]\<rparr>"

definition ex_rank_list :: rank_list_entity where
  "ex_rank_list = \<lparr>rl_id = ''rl'', rl_name = ''Movies''\<rparr>"

definition ex_uuid :: "nat \<Rightarrow> string" where
  "ex_uuid n = replicate (Suc n) CHR ''u''"

text \<open>A knowledge graph with an entity of each of the three shapes.\<close>

definition ex_graph :: knowledge_graph where
  "ex_graph =
     \<lparr>entities = [of_rank_list ex_rank_list, of_item (ex_item ''a''),
                  \<lparr>ent_id = ''x'', ent_name = ''X'', ent_rank_type = Some ''other'', ent_emoji = None\<rparr>],
      relations = [\<lparr>rel_id = ''r1'', rel_from = ''rl'', rel_to = ''a'', rel_score = 6\<rparr>]\<rparr>"

section \<open>Building the knowledge graph\<close>

text \<open>
  \<open>crypto.randomUUID()\<close> is the only source of nondeterminism. A build receives the
  sequence of values the generator returns during it: \<open>randomUUID k\<close> is the value of
  call number \<open>k\<close>. A handler that draws one identifier receives that identifier.
\<close>

text \<open>
  The loop of \<open>buildGraph\<close> over \<open>rankedItemIds\<close>, pushing onto \<open>relations\<close>; each push
  draws one identifier, so the number of calls made so far is the length of \<open>relations\<close>.
  The slider page pushes when \<open>score !== undefined\<close>.
\<close>

fun buildRelations_slider ::
  "(nat \<Rightarrow> string) \<Rightarrow> rank_list_entity \<Rightarrow> (string \<times> rat) list \<Rightarrow> string list
   \<Rightarrow> relation list \<Rightarrow> relation list" where
  "buildRelations_slider randomUUID rankListEntity scores [] rels = rels"
| "buildRelations_slider randomUUID rankListEntity scores (itemId # rest) rels =
     (case map_of scores itemId of
        Some score \<Rightarrow>
          buildRelations_slider randomUUID rankListEntity scores rest
            (rels @ [\<lparr>rel_id = randomUUID (length rels), rel_from = rl_id rankListEntity,
                            rel_to = itemId, rel_score = score\<rparr>])
      | None \<Rightarrow> buildRelations_slider randomUUID rankListEntity scores rest rels)"

definition buildGraph_slider ::
  "(nat \<Rightarrow> string) \<Rightarrow> rank_list_entity \<Rightarrow> item_entity list \<Rightarrow> slider_state \<Rightarrow> knowledge_graph" where
  "buildGraph_slider randomUUID rankListEntity initialItems st =
     \<lparr>entities = of_rank_list rankListEntity # map of_item initialItems,
      relations = buildRelations_slider randomUUID rankListEntity (itemScores st) (rankedItemIds st) []\<rparr>"

text \<open>The free page pushes when \<open>score !== undefined && score >= 0\<close>.\<close>

fun buildRelations_free ::
  "(nat \<Rightarrow> string) \<Rightarrow> rank_list_entity \<Rightarrow> (string \<times> rat) list \<Rightarrow> string list
   \<Rightarrow> relation list \<Rightarrow> relation list" where
  "buildRelations_free randomUUID rankListEntity scores [] rels = rels"
| "buildRelations_free randomUUID rankListEntity scores (itemId # rest) rels =
     (case map_of scores itemId of
        Some score \<Rightarrow>
          if score \<ge> 0 then
            buildRelations_free randomUUID rankListEntity scores rest
              (rels @ [\<lparr>rel_id = randomUUID (length rels), rel_from = rl_id rankListEntity,
                              rel_to = itemId, rel_score = score\<rparr>])
          else buildRelations_free randomUUID rankListEntity scores rest rels
      | None \<Rightarrow> buildRelations_free randomUUID rankListEntity scores rest rels)"

definition buildGraph_free ::
  "(nat \<Rightarrow> string) \<Rightarrow> rank_list_entity \<Rightarrow> item_entity list \<Rightarrow> ranking_state \<Rightarrow> knowledge_graph" where
  "buildGraph_free randomUUID rankListEntity initialItems st =
     \<lparr>entities = of_rank_list rankListEntity # map of_item initialItems,
      relations = buildRelations_free randomUUID rankListEntity (itemScores st) (rankedItemIds st) []\<rparr>"

text \<open>
  The relation pushed for the placed item \<open>snd ki\<close> by the push number \<open>fst ki\<close>, and the
  test under which each page pushes.
\<close>

definition relationFor ::
  "(nat \<Rightarrow> string) \<Rightarrow> rank_list_entity \<Rightarrow> (string \<times> rat) list \<Rightarrow> nat \<times> string \<Rightarrow> relation" where
  "relationFor randomUUID rankListEntity scores ki =
     \<lparr>rel_id = randomUUID (fst ki), rel_from = rl_id rankListEntity, rel_to = snd ki,
      rel_score = the (map_of scores (snd ki))\<rparr>"

definition scored_slider :: "(string \<times> rat) list \<Rightarrow> string \<Rightarrow> bool" where
  "scored_slider scores i \<longleftrightarrow> map_of scores i \<noteq> None"

definition scored_free :: "(string \<times> rat) list \<Rightarrow> string \<Rightarrow> bool" where
  "scored_free scores i \<longleftrightarrow> (case map_of scores i of Some s \<Rightarrow> 0 \<le> s | None \<Rightarrow> False)"

section \<open>Free mode (FreeRankingPage.tsx)\<close>

definition handleDropToRanked_free :: "ranking_state \<Rightarrow> ranking_state" where
  "handleDropToRanked_free st =
     (case draggedItem st of
        None \<Rightarrow> st
      | Some d \<Rightarrow>
          if item_id d \<notin> set (rankedItemIds st) then
            st\<lparr>rankedItemIds := rankedItemIds st @ [item_id d],
               itemScores := (if map_of (itemScores st) (item_id d) = None
                              then AList.update (item_id d) 0 (itemScores st)
                              else itemScores st),
               draggedItem := None\<rparr>
          else st\<lparr>draggedItem := None\<rparr>)"

definition handleDropToUnranked_free :: "ranking_state \<Rightarrow> ranking_state" where
  "handleDropToUnranked_free st =
     (case draggedItem st of
        None \<Rightarrow> st
      | Some d \<Rightarrow>
          st\<lparr>rankedItemIds := removeAll (item_id d) (rankedItemIds st),
             itemScores := AList.delete (item_id d) (itemScores st),
             draggedItem := None\<rparr>)"

text \<open>
  \<open>parseFloat\<close> is the built-in of the language; the handler takes it as a parameter.
  Its result is \<open>None\<close> for NaN and the number read otherwise.
\<close>

definition handleScoreChange ::
  "(string \<Rightarrow> rat option) \<Rightarrow> string \<Rightarrow> string \<Rightarrow> ranking_state \<Rightarrow> ranking_state" where
  "handleScoreChange parseFloat itemId v st =
     (if v = '''' then st\<lparr>itemScores := AList.delete itemId (itemScores st)\<rparr>
      else
        (case parseFloat v of
           Some numValue \<Rightarrow>
             if numValue \<ge> 0 then st\<lparr>itemScores := AList.update itemId numValue (itemScores st)\<rparr>
             else st
         | None \<Rightarrow> st))"

definition handleReset_free :: "ranking_state \<Rightarrow> ranking_state" where
  "handleReset_free st = st\<lparr>itemScores := [], rankedItemIds := []\<rparr>"

definition free_init :: ranking_state where
  "free_init = \<lparr>draggedItem = None, itemScores = [], rankedItemIds = []\<rparr>"

text \<open>The events of a free-mode session, and the states a session reaches.\<close>

datatype free_event =
    FreeDragStart item_entity
  | FreeDropToRanked
  | FreeDropToUnranked
  | FreeScoreChange string string
  | FreeReset

fun free_step :: "(string \<Rightarrow> rat option) \<Rightarrow> ranking_state \<Rightarrow> free_event \<Rightarrow> ranking_state" where
  "free_step parseFloat st (FreeDragStart item) = handleDragStart item st"
| "free_step parseFloat st FreeDropToRanked = handleDropToRanked_free st"
| "free_step parseFloat st FreeDropToUnranked = handleDropToUnranked_free st"
| "free_step parseFloat st (FreeScoreChange itemId v) = handleScoreChange parseFloat itemId v st"
| "free_step parseFloat st FreeReset = handleReset_free st"

definition free_run :: "(string \<Rightarrow> rat option) \<Rightarrow> free_event list \<Rightarrow> ranking_state" where
  "free_run parseFloat evs = foldl (free_step parseFloat) free_init evs"

definition free_inv :: "ranking_state \<Rightarrow> bool" where
  "free_inv st \<longleftrightarrow>
     distinct (rankedItemIds st) \<and> (\<forall>k v. map_of (itemScores st) k = Some v \<longrightarrow> 0 \<le> v)"

text \<open>
  A reading of \<open>parseFloat\<close> on the plain decimal strings a number input yields: an
  optional minus sign, digits, and an optional fraction. It serves as a concrete instance.
\<close>

definition digit_val :: "char \<Rightarrow> nat option" where
  "digit_val c =
     map_of [(CHR ''0'', 0), (CHR ''1'', 1), (CHR ''2'', 2), (CHR ''3'', 3), (CHR ''4'', 4),
             (CHR ''5'', 5), (CHR ''6'', 6), (CHR ''7'', 7), (CHR ''8'', 8), (CHR ''9'', 9)] c"

fun read_digits :: "string \<Rightarrow> nat \<Rightarrow> nat \<times> string" where
  "read_digits [] acc = (acc, [])"
| "read_digits (c # cs) acc =
     (case digit_val c of Some d \<Rightarrow> read_digits cs (10 * acc + d) | None \<Rightarrow> (acc, c # cs))"

definition parse_unsigned :: "string \<Rightarrow> rat option" where
  "parse_unsigned s =
     (let (whole, rest) = read_digits s 0;
          whole_len = length s - length rest
      in (case rest of
            CHR ''.'' # fraction \<Rightarrow>
              (let (f, rest') = read_digits fraction 0;
                   frac_len = length fraction - length rest'
               in if whole_len = 0 \<and> frac_len = 0 then None
                  else Some (of_nat whole + of_nat f / 10 ^ frac_len))
          | _ \<Rightarrow> if whole_len = 0 then None else Some (of_nat whole)))"

definition parse_decimal :: "string \<Rightarrow> rat option" where
  "parse_decimal s =
     (case s of
        CHR ''-'' # rest \<Rightarrow> map_option uminus (parse_unsigned rest)
      | _ \<Rightarrow> parse_unsigned s)"

section \<open>Tier mode (App.tsx)\<close>

record tier_state = drag_state +
  graph :: knowledge_graph

text \<open>The graph that \<open>handleCategorySelect\<close> and \<open>handleReset\<close> install.\<close>

definition tier_init :: "rank_list_entity \<Rightarrow> item_entity list \<Rightarrow> tier_state" where
  "tier_init tierListEntity initialItems =
     \<lparr>draggedItem = None,
      graph = \<lparr>entities = of_rank_list tierListEntity # map of_item initialItems, relations = []\<rparr>\<rparr>"

text \<open>\<open>handleDrop\<close>; \<open>newId\<close> is the value \<open>generateRelationId()\<close> returns in this call.\<close>

definition handleDrop :: "rank_list_entity \<Rightarrow> string \<Rightarrow> rat option \<Rightarrow> tier_state \<Rightarrow> tier_state" where
  "handleDrop tierListEntity newId targetScore st =
     (case draggedItem st of
        None \<Rightarrow> st
      | Some d \<Rightarrow>
          let newRelations = filter (\<lambda>rel. rel_to rel \<noteq> item_id d) (relations (graph st));
              newRelations' =
                (case targetScore of
                   Some sc \<Rightarrow>
                     newRelations @ [\<lparr>rel_id = newId, rel_from = rl_id tierListEntity,
                                      rel_to = item_id d, rel_score = sc\<rparr>]
                 | None \<Rightarrow> newRelations)
          in st\<lparr>graph := (graph st)\<lparr>relations := newRelations'\<rparr>, draggedItem := None\<rparr>)"

definition handleReset :: "rank_list_entity \<Rightarrow> item_entity list \<Rightarrow> tier_state \<Rightarrow> tier_state" where
  "handleReset tierListEntity initialItems st =
     st\<lparr>graph := \<lparr>entities = of_rank_list tierListEntity # map of_item initialItems,
                  relations = []\<rparr>\<rparr>"

definition getItemEntities :: "tier_state \<Rightarrow> entity list" where
  "getItemEntities st = filter (\<lambda>e. ent_emoji e \<noteq> None) (entities (graph st))"

definition getItemsForTierScore :: "rank_list_entity \<Rightarrow> rat \<Rightarrow> tier_state \<Rightarrow> entity list" where
  "getItemsForTierScore tierListEntity score st =
     (let itemIdsAtScore =
            map rel_to (filter (\<lambda>rel. rel_from rel = rl_id tierListEntity \<and> rel_score rel = score)
                          (relations (graph st)))
      in filter (\<lambda>item. ent_id item \<in> set itemIdsAtScore) (getItemEntities st))"

definition getUnrankedItems :: "tier_state \<Rightarrow> entity list" where
  "getUnrankedItems st =
     (let rankedIds = map rel_to (relations (graph st))
      in filter (\<lambda>item. ent_id item \<notin> set rankedIds) (getItemEntities st))"

datatype tier_event =
    TierDragStart item_entity
  | TierDrop "rat option" string
  | TierReset

fun tier_step :: "rank_list_entity \<Rightarrow> item_entity list \<Rightarrow> tier_state \<Rightarrow> tier_event \<Rightarrow> tier_state" where
  "tier_step tierListEntity initialItems st (TierDragStart item) = handleDragStart item st"
| "tier_step tierListEntity initialItems st (TierDrop targetScore newId) = handleDrop tierListEntity newId targetScore st"
| "tier_step tierListEntity initialItems st TierReset = handleReset tierListEntity initialItems st"

definition tier_run :: "rank_list_entity \<Rightarrow> item_entity list \<Rightarrow> tier_event list \<Rightarrow> tier_state" where
  "tier_run tierListEntity initialItems evs = foldl (tier_step tierListEntity initialItems) (tier_init tierListEntity initialItems) evs"

text \<open>
  The placements of the tier page in the words of the spec: \<open>moveToTier\<close> places the
  dragged item in a tier and replaces any earlier assignment, a drop into the pool of
  unranked items unplaces it, and a reset clears all placements. \<open>spec_tier_placements\<close>
  gives, after the events, the tier score of each placed item.
\<close>

record spec_tier_state =
  spec_dragged :: "item_entity option"
  spec_tier_of :: "string \<Rightarrow> rat option"

fun spec_tier_step :: "spec_tier_state \<Rightarrow> tier_event \<Rightarrow> spec_tier_state" where
  "spec_tier_step sp (TierDragStart item) = sp\<lparr>spec_dragged := Some item\<rparr>"
| "spec_tier_step sp (TierDrop targetScore newId) =
     (case spec_dragged sp of
        None \<Rightarrow> sp
      | Some d \<Rightarrow> sp\<lparr>spec_tier_of := (spec_tier_of sp)(item_id d := targetScore),
                      spec_dragged := None\<rparr>)"
| "spec_tier_step sp TierReset = sp\<lparr>spec_tier_of := (\<lambda>_. None)\<rparr>"

definition spec_tier_run :: "tier_event list \<Rightarrow> spec_tier_state" where
  "spec_tier_run evs = foldl spec_tier_step \<lparr>spec_dragged = None, spec_tier_of = (\<lambda>_. None)\<rparr> evs"

definition spec_tier_placements :: "tier_event list \<Rightarrow> string \<Rightarrow> rat option" where
  "spec_tier_placements evs = spec_tier_of (spec_tier_run evs)"

section \<open>The property graph\<close>

text \<open>
  A property value is \<open>any\<close>; the model has strings, numbers, booleans and \<open>null\<close>.
  A \<open>Record<string, any>\<close> is the list of its entries in the order of \<open>Object.entries\<close>;
  a key that is absent reads as \<open>undefined\<close>.
\<close>

datatype js_value = JString string | JNumber rat | JBoolean bool | JNull

record property_graph_entity =
  pge_id :: string
  pge_properties :: "(string \<times> js_value) list"

record property_graph_relation =
  pgr_id :: string
  pgr_from :: string
  pgr_to :: string
  pgr_properties :: "(string \<times> js_value) list"

record property_graph =
  pg_entities :: "property_graph_entity list"
  pg_relations :: "property_graph_relation list"

text \<open>The callback of \<open>graph.entities.map\<close> in \<open>convertToPropertyGraph\<close>.\<close>

definition convertEntity :: "entity \<Rightarrow> property_graph_entity" where
  "convertEntity e =
     (if ent_rank_type e = Some ''weighted_rank'' then
        \<lparr>pge_id = ent_id e,
         pge_properties = [(''name'', JString (ent_name e)),
                           (''rank_type'', JString ''weighted_rank'')]\<rparr>
      else if ent_emoji e \<noteq> None then
        \<lparr>pge_id = ent_id e, pge_properties = [(''name'', JString (ent_name e))]\<rparr>
      else \<lparr>pge_id = ent_id e, pge_properties = []\<rparr>)"

text \<open>The callback of \<open>graph.relations.map\<close>.\<close>

definition convertRelation :: "relation \<Rightarrow> property_graph_relation" where
  "convertRelation r =
     \<lparr>pgr_id = rel_id r, pgr_from = rel_from r, pgr_to = rel_to r,
      pgr_properties = [(''score'', JNumber (rel_score r))]\<rparr>"

text \<open>
  \<open>convertToPropertyGraph\<close> has the same body on the three pages. On the tier page it
  reads the graph of the state; on the other two it builds the graph first.
\<close>

definition convertToPropertyGraph :: "knowledge_graph \<Rightarrow> property_graph" where
  "convertToPropertyGraph g =
     \<lparr>pg_entities = map convertEntity (entities g),
      pg_relations = map convertRelation (relations g)\<rparr>"

definition convertToPropertyGraph_free ::
  "(nat \<Rightarrow> string) \<Rightarrow> rank_list_entity \<Rightarrow> item_entity list \<Rightarrow> ranking_state \<Rightarrow> property_graph" where
  "convertToPropertyGraph_free randomUUID rankListEntity initialItems st =
     convertToPropertyGraph (buildGraph_free randomUUID rankListEntity initialItems st)"

definition convertToPropertyGraph_slider ::
  "(nat \<Rightarrow> string) \<Rightarrow> rank_list_entity \<Rightarrow> item_entity list \<Rightarrow> slider_state \<Rightarrow> property_graph" where
  "convertToPropertyGraph_slider randomUUID rankListEntity initialItems st =
     convertToPropertyGraph (buildGraph_slider randomUUID rankListEntity initialItems st)"

section \<open>Preparing the operation batch (useGRC20.ts)\<close>

datatype DataType = STRING | NUMBER | BOOLEAN | TIME | POINT | RELATION

fun DataType_name :: "DataType \<Rightarrow> string" where
  "DataType_name STRING = ''STRING''"
| "DataType_name NUMBER = ''NUMBER''"
| "DataType_name BOOLEAN = ''BOOLEAN''"
| "DataType_name TIME = ''TIME''"
| "DataType_name POINT = ''POINT''"
| "DataType_name RELATION = ''RELATION''"

definition is_digit :: "char \<Rightarrow> bool" where
  "is_digit c \<longleftrightarrow> c \<in> set ''0123456789''"

text \<open>The test of the regular expression \<open>/^\d{4}-\d{2}-\d{2}T/\<close>.\<close>

definition iso_date_prefix :: "string \<Rightarrow> bool" where
  "iso_date_prefix s =
     (case take 11 s of
        [y1, y2, y3, y4, d1, m1, m2, d2, a1, a2, t] \<Rightarrow>
          is_digit y1 \<and> is_digit y2 \<and> is_digit y3 \<and> is_digit y4 \<and> d1 = CHR ''-''
          \<and> is_digit m1 \<and> is_digit m2 \<and> d2 = CHR ''-''
          \<and> is_digit a1 \<and> is_digit a2 \<and> t = CHR ''T''
      | _ \<Rightarrow> False)"

definition getDataType :: "js_value \<Rightarrow> DataType" where
  "getDataType v =
     (case v of
        JNumber _ \<Rightarrow> NUMBER
      | JBoolean _ \<Rightarrow> BOOLEAN
      | JString s \<Rightarrow> if iso_date_prefix s then TIME else STRING
      | JNull \<Rightarrow> STRING)"

text \<open>The truth value of a property value in a condition.\<close>

fun truthy :: "js_value \<Rightarrow> bool" where
  "truthy (JString s) = (s \<noteq> '''')"
| "truthy (JNumber n) = (n \<noteq> 0)"
| "truthy (JBoolean b) = b"
| "truthy JNull = False"

text \<open>
  Modelled from the spec: \<open>IdUtils.generate\<close> of the SDK, which is not part of the
  sources, synthesises a fresh protocol identifier. The identifier drawn by call number
  \<open>n\<close> of an encoding is \<open>GrcId n\<close>; it is a non-empty string, so it is truthy.
\<close>

datatype grc_id = GrcId nat

text \<open>
  An operation of the batch. The field \<open>value: String(v)\<close> of a property value is kept as
  the value \<open>v\<close> that is rendered.
\<close>

datatype op =
    CreatePropertyOp grc_id string DataType
  | CreateEntityOp grc_id "(grc_id \<times> js_value) list"
  | CreateRelationOp grc_id grc_id grc_id grc_id "(grc_id \<times> js_value) list option"

text \<open>
  The \<open>_description\<close> of an operation, with the parts that the template string renders:
  the property's name and type; the name of the tier list; the item's name, the tier
  label and the score.
\<close>

datatype description =
    CreatePropertyDesc string DataType
  | CreateTierListDesc "js_value option"
  | RankDesc js_value "js_value option" "js_value option"

record described_op =
  op_payload :: op
  op_description :: description

text \<open>
  Modelled from the spec: \<open>Graph.createProperty\<close>, \<open>Graph.createEntity\<close> and
  \<open>Graph.createRelation\<close> of the SDK, which is not part of the sources. Each emits one
  operation: a create-property operation with a fresh identifier (\<open>newId\<close>, drawn by the
  SDK), one create-entity operation carrying the property values, one create-relation
  operation carrying the attached values.
\<close>

definition Graph_createProperty :: "grc_id \<Rightarrow> string \<Rightarrow> DataType \<Rightarrow> grc_id \<times> op list" where
  "Graph_createProperty newId name dataType = (newId, [CreatePropertyOp newId name dataType])"

definition Graph_createEntity :: "grc_id \<Rightarrow> (grc_id \<times> js_value) list \<Rightarrow> op list" where
  "Graph_createEntity entityId vals = [CreateEntityOp entityId vals]"

definition Graph_createRelation ::
  "grc_id \<Rightarrow> grc_id \<Rightarrow> grc_id \<Rightarrow> grc_id \<Rightarrow> (grc_id \<times> js_value) list option \<Rightarrow> op list" where
  "Graph_createRelation relId fromEntity toEntity relType entityValues =
     [CreateRelationOp relId fromEntity toEntity relType entityValues]"

text \<open>The local variables of \<open>prepareGRC20Edits\<close>, and the number of identifiers drawn.\<close>

record encoder_state =
  allOps :: "described_op list"
  createdProperties :: "(string \<times> grc_id) list"
  entityIdMap :: "(string \<times> grc_id) list"
  entityOpCount :: nat
  propertyOpCount :: nat
  relationOpCount :: nat
  generated :: nat

definition IdUtils_generate :: "encoder_state \<Rightarrow> grc_id \<times> encoder_state" where
  "IdUtils_generate st = (GrcId (generated st), st\<lparr>generated := Suc (generated st)\<rparr>)"

definition tierMetadata :: "(string \<times> rat) list" where
  "tierMetadata = [(''S'', 6), (''A'', 5), (''B'', 4), (''C'', 3), (''D'', 2), (''F'', 1)]"

definition getOrCreateProperty :: "string \<Rightarrow> DataType \<Rightarrow> encoder_state \<Rightarrow> grc_id \<times> encoder_state" where
  "getOrCreateProperty name dataType st =
     (let key = name @ '':'' @ DataType_name dataType
      in (case map_of (createdProperties st) key of
            Some propertyId \<Rightarrow> (propertyId, st)
          | None \<Rightarrow>
              let (newId, st1) = IdUtils_generate st;
                  (resultId, resultOps) = Graph_createProperty newId name dataType
              in (resultId,
                  st1\<lparr>createdProperties := AList.update key resultId (createdProperties st1),
                      allOps := allOps st1 @
                        map (\<lambda>op. \<lparr>op_payload = op,
                                    op_description = CreatePropertyDesc name dataType\<rparr>) resultOps,
                      propertyOpCount := propertyOpCount st1 + length resultOps\<rparr>)))"

text \<open>The four identifiers drawn first: \<open>name\<close>, \<open>rank_type\<close>, \<open>ranks\<close> and \<open>score\<close>.\<close>

definition namePropertyId :: grc_id where "namePropertyId = GrcId 0"
definition rankTypePropertyId :: grc_id where "rankTypePropertyId = GrcId 1"
definition ranksPropertyId :: grc_id where "ranksPropertyId = GrcId 2"
definition scorePropertyId :: grc_id where "scorePropertyId = GrcId 3"

definition encoder_init :: encoder_state where
  "encoder_init =
     \<lparr>allOps = [],
      createdProperties = [(''name:STRING'', namePropertyId), (''rank_type:STRING'', rankTypePropertyId)],
      entityIdMap = [], entityOpCount = 0, propertyOpCount = 0, relationOpCount = 0,
      generated = 4\<rparr>"

definition isRankList :: "property_graph_entity \<Rightarrow> bool" where
  "isRankList e \<longleftrightarrow> map_of (pge_properties e) ''rank_type'' = Some (JString ''weighted_rank'')"

text \<open>The body of the loop over \<open>itemEntities\<close>.\<close>

definition mapItemEntity :: "encoder_state \<Rightarrow> property_graph_entity \<Rightarrow> encoder_state" where
  "mapItemEntity st itemEntity =
     (let (itemGrc20Id, st1) = IdUtils_generate st
      in st1\<lparr>entityIdMap := AList.update (pge_id itemEntity) itemGrc20Id (entityIdMap st1)\<rparr>)"

text \<open>The body of the loop over \<open>Object.entries(tierListEntity.properties)\<close>.\<close>

definition pushValue ::
  "(grc_id \<times> js_value) list \<times> encoder_state \<Rightarrow> string \<times> js_value
   \<Rightarrow> (grc_id \<times> js_value) list \<times> encoder_state" where
  "pushValue acc entry =
     (let (vals, st) = acc;
          (attrName, attrValue) = entry;
          dataType = getDataType attrValue;
          (propertyId, st1) = getOrCreateProperty attrName dataType st
      in (vals @ [(propertyId, attrValue)], st1))"

text \<open>The branch \<open>if (tierListEntity)\<close>.\<close>

definition createTierList :: "property_graph_entity \<Rightarrow> encoder_state \<Rightarrow> encoder_state" where
  "createTierList tierListEntity st =
     (let (tierListGrc20Id, st1) = IdUtils_generate st;
          st2 = st1\<lparr>entityIdMap := AList.update (pge_id tierListEntity) tierListGrc20Id (entityIdMap st1)\<rparr>;
          (vals, st3) = foldl pushValue ([], st2) (pge_properties tierListEntity);
          entityResultOps = Graph_createEntity tierListGrc20Id vals
      in st3\<lparr>allOps := allOps st3 @
                 map (\<lambda>op. \<lparr>op_payload = op,
                             op_description =
                               CreateTierListDesc (map_of (pge_properties tierListEntity) ''name'')\<rparr>)
                   entityResultOps,
              entityOpCount := entityOpCount st3 + length entityResultOps\<rparr>)"

text \<open>The state when the loop over the relations starts.\<close>

definition processEntities :: "property_graph \<Rightarrow> encoder_state" where
  "processEntities g =
     (let itemEntities = filter (\<lambda>e. \<not> isRankList e) (pg_entities g);
          st1 = foldl mapItemEntity encoder_init itemEntities
      in (case List.find isRankList (pg_entities g) of
            Some tierListEntity \<Rightarrow> createTierList tierListEntity st1
          | None \<Rightarrow> st1))"

text \<open>\<open>itemEntity?.properties.name || 'Unknown'\<close>.\<close>

definition itemNameOf :: "property_graph \<Rightarrow> string \<Rightarrow> js_value" where
  "itemNameOf g toId =
     (case List.find (\<lambda>e. pge_id e = toId) (pg_entities g) of
        Some itemEntity \<Rightarrow>
          (case map_of (pge_properties itemEntity) ''name'' of
             Some n \<Rightarrow> if truthy n then n else JString ''Unknown''
           | None \<Rightarrow> JString ''Unknown'')
      | None \<Rightarrow> JString ''Unknown'')"

text \<open>\<open>tierMetadata.find(t => t.score === score)?.label || score\<close>.\<close>

definition tierLabelOf :: "js_value option \<Rightarrow> js_value option" where
  "tierLabelOf score =
     (case score of
        Some (JNumber n) \<Rightarrow>
          (case List.find (\<lambda>t. snd t = n) tierMetadata of
             Some t \<Rightarrow> if fst t \<noteq> '''' then Some (JString (fst t)) else score
           | None \<Rightarrow> score)
      | _ \<Rightarrow> score)"

text \<open>The body of the loop over \<open>graph.relations\<close>; the early exit is \<open>continue\<close>.\<close>

definition processRelation :: "property_graph \<Rightarrow> encoder_state \<Rightarrow> property_graph_relation \<Rightarrow> encoder_state" where
  "processRelation g st relation =
     (let (grc20RelationId, st1) = IdUtils_generate st
      in (case (map_of (entityIdMap st1) (pgr_from relation),
                map_of (entityIdMap st1) (pgr_to relation)) of
            (Some fromGrc20Id, Some toGrc20Id) \<Rightarrow>
              let score = map_of (pgr_properties relation) ''score'';
                  entityValues = (case score of
                                    Some v \<Rightarrow> Some [(scorePropertyId, v)]
                                  | None \<Rightarrow> None);
                  relationResultOps =
                    Graph_createRelation grc20RelationId fromGrc20Id toGrc20Id ranksPropertyId
                      entityValues;
                  itemName = itemNameOf g (pgr_to relation);
                  tierLabel = tierLabelOf score
              in st1\<lparr>allOps := allOps st1 @
                         map (\<lambda>op. \<lparr>op_payload = op,
                                     op_description = RankDesc itemName tierLabel score\<rparr>)
                           relationResultOps,
                      relationOpCount := relationOpCount st1 + length relationResultOps\<rparr>
          | _ \<Rightarrow> st1))"

record metadata =
  title :: "string option"
  description_text :: "string option"

record GRC20Edit =
  edit_name :: string
  edit_ops :: "described_op list"

record PreparedGRC20Data =
  edit :: GRC20Edit
  totalOps :: nat
  entityOps :: nat
  propertyOps :: nat
  relationOps :: nat

text \<open>\<open>metadata?.title || 'Tier List Rank'\<close>: an absent and an empty title fall back.\<close>

definition editName :: "metadata option \<Rightarrow> string" where
  "editName md =
     (case md of
        Some m \<Rightarrow>
          (case title m of
             Some t \<Rightarrow> if t \<noteq> '''' then t else ''Tier List Rank''
           | None \<Rightarrow> ''Tier List Rank'')
      | None \<Rightarrow> ''Tier List Rank'')"

definition prepareGRC20Edits :: "property_graph \<Rightarrow> metadata option \<Rightarrow> PreparedGRC20Data" where
  "prepareGRC20Edits g md =
     (let st = foldl (processRelation g) (processEntities g) (pg_relations g)
      in \<lparr>edit = \<lparr>edit_name = editName md, edit_ops = allOps st\<rparr>,
          totalOps = length (allOps st),
          entityOps = entityOpCount st,
          propertyOps = propertyOpCount st,
          relationOps = relationOpCount st\<rparr>)"

text \<open>The kind of an operation, and what a create-relation operation joins.\<close>

definition is_property_op :: "described_op \<Rightarrow> bool" where
  "is_property_op d = (case op_payload d of CreatePropertyOp _ _ _ \<Rightarrow> True | _ \<Rightarrow> False)"

definition is_entity_op :: "described_op \<Rightarrow> bool" where
  "is_entity_op d = (case op_payload d of CreateEntityOp _ _ \<Rightarrow> True | _ \<Rightarrow> False)"

definition is_relation_op :: "described_op \<Rightarrow> bool" where
  "is_relation_op d = (case op_payload d of CreateRelationOp _ _ _ _ _ \<Rightarrow> True | _ \<Rightarrow> False)"

definition relation_ends :: "described_op \<Rightarrow> (grc_id \<times> grc_id \<times> grc_id \<times> (grc_id \<times> js_value) list option) option" where
  "relation_ends d =
     (case op_payload d of
        CreateRelationOp _ fromEntity toEntity relType entityValues \<Rightarrow>
          Some (fromEntity, toEntity, relType, entityValues)
      | _ \<Rightarrow> None)"

text \<open>
  A relation is resolvable when both its ends have an entry in the table of entity
  identifiers; the table is complete when the loop over the relations starts.
\<close>

definition resolvable :: "encoder_state \<Rightarrow> property_graph_relation \<Rightarrow> bool" where
  "resolvable st relation \<longleftrightarrow>
     map_of (entityIdMap st) (pgr_from relation) \<noteq> None
     \<and> map_of (entityIdMap st) (pgr_to relation) \<noteq> None"

definition expected_ends ::
  "encoder_state \<Rightarrow> property_graph_relation
   \<Rightarrow> grc_id \<times> grc_id \<times> grc_id \<times> (grc_id \<times> js_value) list option" where
  "expected_ends st relation =
     (the (map_of (entityIdMap st) (pgr_from relation)),
      the (map_of (entityIdMap st) (pgr_to relation)),
      ranksPropertyId,
      map_option (\<lambda>v. [(scorePropertyId, v)]) (map_of (pgr_properties relation) ''score''))"

text \<open>
  What a step of the encoding that handles no relation leaves alone: the table of entity
  identifiers, the relation counter and the relation operations.
\<close>

definition keeps_relations :: "encoder_state \<Rightarrow> encoder_state \<Rightarrow> bool" where
  "keeps_relations st st' \<longleftrightarrow>
     entityIdMap st' = entityIdMap st \<and> relationOpCount st' = relationOpCount st
     \<and> filter is_relation_op (allOps st') = filter is_relation_op (allOps st)"

text \<open>The counters agree with the operations of the batch.\<close>

definition counts_ok :: "encoder_state \<Rightarrow> bool" where
  "counts_ok st \<longleftrightarrow>
     entityOpCount st = length (filter is_entity_op (allOps st))
     \<and> propertyOpCount st = length (filter is_property_op (allOps st))
     \<and> relationOpCount st = length (filter is_relation_op (allOps st))
     \<and> length (allOps st) = entityOpCount st + propertyOpCount st + relationOpCount st"

subsection \<open>Example property graphs\<close>

definition ex_movies :: property_graph where
  "ex_movies =
     \<lparr>pg_entities =
        [\<lparr>pge_id = ''rl'', pge_properties = [(''name'', JString ''Movies''),
                                              (''rank_type'', JString ''weighted_rank'')]\<rparr>,
         \<lparr>pge_id = ''a'', pge_properties = [(''name'', JString ''Alien'')]\<rparr>,
         \<lparr>pge_id = ''b'', pge_properties = [(''name'', JString ''Brazil'')]\<rparr>],
      pg_relations =
        [\<lparr>pgr_id = ''r1'', pgr_from = ''rl'', pgr_to = ''a'', pgr_properties = [(''score'', JNumber 6)]\<rparr>,
         \<lparr>pgr_id = ''r2'', pgr_from = ''rl'', pgr_to = ''b'', pgr_properties = [(''score'', JNumber 3)]\<rparr>]\<rparr>"

text \<open>The same graph with a third relation whose target is not an entity of the graph.\<close>

definition ex_dangling :: property_graph where
  "ex_dangling =
     ex_movies\<lparr>pg_relations :=
       [\<lparr>pgr_id = ''r1'', pgr_from = ''rl'', pgr_to = ''a'', pgr_properties = [(''score'', JNumber 6)]\<rparr>,
        \<lparr>pgr_id = ''r0'', pgr_from = ''rl'', pgr_to = ''zz'', pgr_properties = [(''score'', JNumber 5)]\<rparr>,
        \<lparr>pgr_id = ''r2'', pgr_from = ''rl'', pgr_to = ''b'', pgr_properties = [(''score'', JNumber 3)]\<rparr>]\<rparr>"

text \<open>A graph without a rank list.\<close>

definition ex_items_only :: property_graph where
  "ex_items_only =
     \<lparr>pg_entities =
        [\<lparr>pge_id = ''a'', pge_properties = [(''name'', JString ''Alien'')]\<rparr>,
         \<lparr>pge_id = ''b'', pge_properties = [(''name'', JString ''Brazil'')]\<rparr>],
      pg_relations =
        [\<lparr>pgr_id = ''r1'', pgr_from = ''a'', pgr_to = ''b'', pgr_properties = [(''score'', JNumber 6)]\<rparr>,
         \<lparr>pgr_id = ''r2'', pgr_from = ''rl'', pgr_to = ''b'', pgr_properties = [(''score'', JNumber 3)]\<rparr>]\<rparr>"

section \<open>Position lookups in the sorted order\<close>

lemma findIndex_ge: "- 1 \<le> findIndex P xs"
  by (induction xs) (auto simp: Let_def)

lemma findIndex_first:
  "k < length xs \<Longrightarrow> P (xs ! k) \<Longrightarrow> (\<forall>j<k. \<not> P (xs ! j)) \<Longrightarrow> findIndex P xs = int k"
proof (induction xs arbitrary: k)
  case Nil
  then show ?case by simp
next
  case (Cons x xs)
  show ?case
  proof (cases k)
    case 0
    with Cons.prems show ?thesis by simp
  next
    case (Suc m)
    from Cons.prems Suc have nx: "\<not> P x" by auto
    from Cons.prems Suc have "m < length xs" "P (xs ! m)" "\<forall>j<m. \<not> P (xs ! j)" by auto
    then have "findIndex P xs = int m" by (rule Cons.IH)
    with nx Suc show ?thesis by (simp add: Let_def)
  qed
qed

lemma findIndex_distinct:
  assumes "distinct (map f xs)" "k < length xs"
  shows "findIndex (\<lambda>x. f x = f (xs ! k)) xs = int k"
proof (rule findIndex_first)
  show "k < length xs" by fact
  show "f (xs ! k) = f (xs ! k)" by simp
  show "\<forall>j<k. f (xs ! j) \<noteq> f (xs ! k)"
  proof (intro allI impI)
    fix j assume "j < k"
    with assms have jl: "j < length (map f xs)" and kl: "k < length (map f xs)" by simp_all
    from \<open>j < k\<close> nth_eq_iff_index_eq [OF assms(1) jl kl]
    have "map f xs ! j \<noteq> map f xs ! k" by simp
    with jl kl show "f (xs ! j) \<noteq> f (xs ! k)" by simp
  qed
qed

lemma findIndex_absent: "(\<forall>x \<in> set xs. \<not> P x) \<Longrightarrow> findIndex P xs = - 1"
  by (induction xs) (auto simp: Let_def)

lemma findIndex_found: "findIndex P xs \<noteq> - 1 \<Longrightarrow> P (xs ! nat (findIndex P xs))"
proof (induction xs)
  case Nil
  then show ?case by simp
next
  case (Cons x xs)
  show ?case
  proof (cases "P x")
    case True
    then show ?thesis by simp
  next
    case False
    with Cons.prems have ne: "findIndex P xs \<noteq> - 1" by (auto simp: Let_def)
    moreover have "- 1 \<le> findIndex P xs" by (rule findIndex_ge)
    ultimately have pos: "0 \<le> findIndex P xs" by linarith
    from Cons.IH ne have "P (xs ! nat (findIndex P xs))" by simp
    with False ne pos show ?thesis by (simp add: Let_def nat_add_distrib)
  qed
qed

lemma distinct_sortByScore:
  "distinct (map item_id initialItems) \<Longrightarrow>
   distinct (map item_id (sortByScore scores (getRankedItems initialItems rankedIds)))"
proof -
  assume d: "distinct (map item_id initialItems)"
  let ?ys = "getRankedItems initialItems rankedIds"
  have "distinct (map item_id ?ys)"
    unfolding getRankedItems_def using d by (rule distinct_map_filter)
  moreover have "mset (map item_id (sortByScore scores ?ys)) = mset (map item_id ?ys)"
    by (simp add: sortByScore_def)
  ultimately show ?thesis
    by (metis mset_eq_imp_distinct_iff)
qed

lemma distinct_sortedItems:
  "distinct (map item_id initialItems) \<Longrightarrow> distinct (map item_id (sortedItems initialItems st))"
  unfolding sortedItems_def by (rule distinct_sortByScore)

lemma dropOnItemScore_between:
  assumes dist: "distinct (map item_id initialItems)"
    and k: "Suc k < length (sortedItems initialItems st)"
    and t: "item_id (sortedItems initialItems st ! Suc k) = item_id t"
    and a: "item_id (sortedItems initialItems st ! k) \<noteq> item_id d"
    and above: "map_of (itemScores st) (item_id (sortedItems initialItems st ! k)) = Some scoreAbove"
    and below: "map_of (itemScores st) (item_id t) = Some scoreBelow"
  shows "dropOnItemScore initialItems d t st = Some (round2 (js_div (js_add scoreAbove scoreBelow) 2))"
proof -
  let ?xs = "sortedItems initialItems st"
  have dx: "distinct (map item_id ?xs)" using dist by (rule distinct_sortedItems)
  have ti: "findIndex (\<lambda>item. item_id item = item_id t) ?xs = int (Suc k)"
    using findIndex_distinct [OF dx k] t by simp
  have di: "findIndex (\<lambda>item. item_id item = item_id d) ?xs \<noteq> int k"
  proof
    assume e: "findIndex (\<lambda>item. item_id item = item_id d) ?xs = int k"
    then have "findIndex (\<lambda>item. item_id item = item_id d) ?xs \<noteq> - 1" by simp
    from findIndex_found [OF this] e have "item_id (?xs ! k) = item_id d" by simp
    with a show False by simp
  qed
  show ?thesis
    using ti di a above below by (simp add: dropOnItemScore_def Let_def)
qed

lemma dropOnItemScore_top:
  assumes dist: "distinct (map item_id initialItems)"
    and ne: "sortedItems initialItems st \<noteq> []"
    and t: "item_id (hd (sortedItems initialItems st)) = item_id t"
    and below: "map_of (itemScores st) (item_id t) = Some scoreBelow"
  shows "dropOnItemScore initialItems d t st = Some (round2 (js_div (js_add 100 scoreBelow) 2))"
proof -
  let ?xs = "sortedItems initialItems st"
  from ne t have ti: "findIndex (\<lambda>item. item_id item = item_id t) ?xs = 0"
    by (cases ?xs) simp_all
  show ?thesis
    using ti below by (simp add: dropOnItemScore_def Let_def)
qed

lemma dropOnItemScore_already_above:
  assumes dist: "distinct (map item_id initialItems)"
    and k: "Suc k < length (sortedItems initialItems st)"
    and t: "item_id (sortedItems initialItems st ! Suc k) = item_id t"
    and a: "item_id (sortedItems initialItems st ! k) = item_id d"
  shows "dropOnItemScore initialItems d t st = None"
proof -
  let ?xs = "sortedItems initialItems st"
  have dx: "distinct (map item_id ?xs)" using dist by (rule distinct_sortedItems)
  have ti: "findIndex (\<lambda>item. item_id item = item_id t) ?xs = int (Suc k)"
    using findIndex_distinct [OF dx k] t by simp
  from k have k': "k < length ?xs" by simp
  have di: "findIndex (\<lambda>item. item_id item = item_id d) ?xs = int k"
    using findIndex_distinct [OF dx k'] a by simp
  show ?thesis using ti di by (simp add: dropOnItemScore_def Let_def)
qed

lemma handleDropOnItem_assigns:
  assumes "draggedItem st = Some d" "item_id d \<noteq> item_id t"
    and "dropOnItemScore initialItems d t st = Some s"
  shows "map_of (itemScores (handleDropOnItem initialItems t st)) (item_id d) = Some s"
  using assms by (simp add: handleDropOnItem_def Let_def update_conv')

lemma handleDropOnItem_noop:
  assumes "draggedItem st = Some d"
    and "item_id d = item_id t \<or> dropOnItemScore initialItems d t st = None"
  shows "itemScores (handleDropOnItem initialItems t st) = itemScores st
       \<and> rankedItemIds (handleDropOnItem initialItems t st) = rankedItemIds st
       \<and> sortedItemOrder (handleDropOnItem initialItems t st) = sortedItemOrder st"
  using assms by (auto simp: handleDropOnItem_def)

lemma set_placedScores:
  assumes "slider_inv st"
  shows "set (placedScores st) = snd ` set (itemScores st)"
proof -
  from assms have d: "distinct (map fst (itemScores st))"
    and e: "set (map fst (itemScores st)) = set (rankedItemIds st)"
    by (simp_all add: slider_inv_def)
  have "set (placedScores st) = {s. \<exists>i \<in> set (rankedItemIds st). map_of (itemScores st) i = Some s}"
    by (force simp: placedScores_def List.map_filter_def image_iff)
  also have "\<dots> = snd ` set (itemScores st)"
  proof (intro set_eqI iffI)
    fix s assume "s \<in> {s. \<exists>i \<in> set (rankedItemIds st). map_of (itemScores st) i = Some s}"
    then obtain i where "map_of (itemScores st) i = Some s" by blast
    then have "(i, s) \<in> set (itemScores st)" by (rule map_of_SomeD)
    then show "s \<in> snd ` set (itemScores st)" by force
  next
    fix s assume "s \<in> snd ` set (itemScores st)"
    then obtain i where m: "(i, s) \<in> set (itemScores st)" by auto
    with d have "map_of (itemScores st) i = Some s" by simp
    moreover from m e have "i \<in> set (rankedItemIds st)" by force
    ultimately show "s \<in> {s. \<exists>i \<in> set (rankedItemIds st). map_of (itemScores st) i = Some s}"
      by blast
  qed
  finally show ?thesis .
qed

lemma handleDropToRanked_assigns:
  assumes inv: "slider_inv st" and d: "draggedItem st = Some d"
    and n: "map_of (itemScores st) (item_id d) = None"
  shows "map_of (itemScores (handleDropToRanked initialItems st)) (item_id d) =
         Some (if rankedItemIds st = [] then 1
               else round2 (js_div (js_add 1 (Min (set (placedScores st)))) 2))"
proof -
  from inv have e: "set (map fst (itemScores st)) = set (rankedItemIds st)"
    by (simp add: slider_inv_def)
  from n have "item_id d \<notin> set (map fst (itemScores st))"
    by (simp add: map_of_eq_None_iff)
  with e have nr: "item_id d \<notin> set (rankedItemIds st)" by simp
  from e have em: "itemScores st = [] \<longleftrightarrow> rankedItemIds st = []"
    by (metis list.map_disc_iff set_empty)
  show ?thesis
  proof (cases "itemScores st = []")
    case True
    with d n nr em show ?thesis
      by (simp add: handleDropToRanked_def Let_def update_conv')
  next
    case False
    then have "map snd (itemScores st) \<noteq> []" by simp
    then have "min_list (map snd (itemScores st)) = Min (set (map snd (itemScores st)))"
      by (rule min_list_Min)
    also have "\<dots> = Min (set (placedScores st))"
      using set_placedScores [OF inv] by simp
    finally have m: "min_list (map snd (itemScores st)) = Min (set (placedScores st))" .
    from False d n nr em m show ?thesis
      by (simp add: handleDropToRanked_def Let_def update_conv')
  qed
qed

lemma sortedItems_ex: "sortedItems ex_items ex_slider = map ex_item [''a'', ''b'', ''c'']"
  by (simp add: sortedItems_def sortByScore_def getRankedItems_def scoreOr50_def
      ex_items_def ex_slider_def ex_item_def)

section \<open>Slider mode: what the two drop handlers assign\<close>

text \<open>
  Each handler taken alone. \<open>handleDropOnItem\<close> assigns the midpoint of the scores of the
  target and of the item listed just before it, or of 100 and the target's score when the
  target is listed first; \<open>handleDropToRanked\<close> assigns 1, or the midpoint of 1 and the
  least placed score. The midpoint is computed and rounded as the code does it.
\<close>

lemma handler_midpoint_law:
  assumes "distinct (map item_id initialItems)" and "draggedItem st = Some d"
  shows "(item_id d \<noteq> item_id t \<and> Suc k < length (sortedItems initialItems st)
          \<and> item_id (sortedItems initialItems st ! Suc k) = item_id t
          \<and> item_id (sortedItems initialItems st ! k) \<noteq> item_id d
          \<and> map_of (itemScores st) (item_id (sortedItems initialItems st ! k)) = Some scoreAbove
          \<and> map_of (itemScores st) (item_id t) = Some scoreBelow
          \<longrightarrow> map_of (itemScores (handleDropOnItem initialItems t st)) (item_id d)
              = Some (round2 (js_div (js_add scoreAbove scoreBelow) 2)))
       \<and> (item_id d \<noteq> item_id t \<and> sortedItems initialItems st \<noteq> []
          \<and> item_id (hd (sortedItems initialItems st)) = item_id t
          \<and> map_of (itemScores st) (item_id t) = Some scoreBelow
          \<longrightarrow> map_of (itemScores (handleDropOnItem initialItems t st)) (item_id d)
              = Some (round2 (js_div (js_add 100 scoreBelow) 2)))
       \<and> (slider_inv st \<and> map_of (itemScores st) (item_id d) = None
          \<longrightarrow> map_of (itemScores (handleDropToRanked initialItems st)) (item_id d)
              = Some (if rankedItemIds st = [] then 1
                      else round2 (js_div (js_add 1 (Min (set (placedScores st)))) 2)))"
proof (intro conjI impI)
  assume h: "item_id d \<noteq> item_id t \<and> Suc k < length (sortedItems initialItems st)
          \<and> item_id (sortedItems initialItems st ! Suc k) = item_id t
          \<and> item_id (sortedItems initialItems st ! k) \<noteq> item_id d
          \<and> map_of (itemScores st) (item_id (sortedItems initialItems st ! k)) = Some scoreAbove
          \<and> map_of (itemScores st) (item_id t) = Some scoreBelow"
  then have "dropOnItemScore initialItems d t st = Some (round2 (js_div (js_add scoreAbove scoreBelow) 2))"
    using assms(1) by (intro dropOnItemScore_between [where k = k]) simp_all
  with assms(2) h
  show "map_of (itemScores (handleDropOnItem initialItems t st)) (item_id d)
        = Some (round2 (js_div (js_add scoreAbove scoreBelow) 2))"
    by (intro handleDropOnItem_assigns) simp_all
next
  assume h: "item_id d \<noteq> item_id t \<and> sortedItems initialItems st \<noteq> []
          \<and> item_id (hd (sortedItems initialItems st)) = item_id t
          \<and> map_of (itemScores st) (item_id t) = Some scoreBelow"
  then have "dropOnItemScore initialItems d t st = Some (round2 (js_div (js_add 100 scoreBelow) 2))"
    using assms(1) by (intro dropOnItemScore_top) simp_all
  with assms(2) h
  show "map_of (itemScores (handleDropOnItem initialItems t st)) (item_id d)
        = Some (round2 (js_div (js_add 100 scoreBelow) 2))"
    by (intro handleDropOnItem_assigns) simp_all
next
  assume "slider_inv st \<and> map_of (itemScores st) (item_id d) = None"
  with assms(2)
  show "map_of (itemScores (handleDropToRanked initialItems st)) (item_id d)
        = Some (if rankedItemIds st = [] then 1
                else round2 (js_div (js_add 1 (Min (set (placedScores st)))) 2))"
    by (intro handleDropToRanked_assigns) simp_all
qed

lemma handler_midpoint_law_examples:
  "map_of (itemScores (handleDropOnItem ex_items (ex_item ''b'') ex_slider)) ''n'' = Some 65
   \<and> map_of (itemScores (handleDropOnItem ex_items (ex_item ''a'') ex_slider)) ''n'' = Some 90
   \<and> map_of (itemScores (handleDropToRanked ex_items ex_slider)) ''n'' = Some (21 / 2)
   \<and> map_of (itemScores (handleDropToRanked ex_items
        (slider_init\<lparr>draggedItem := Some (ex_item ''n'')\<rparr>))) ''n'' = Some 1"
proof -
  let ?n = "ex_item ''n''"
  let ?s0 = "slider_init\<lparr>draggedItem := Some ?n\<rparr>"
  have d: "distinct (map item_id ex_items)"
    by (simp add: ex_items_def ex_item_def)
  have g: "draggedItem ex_slider = Some ?n"
    by (simp add: ex_slider_def)
  have g0: "draggedItem ?s0 = Some ?n"
    by simp
  have i: "slider_inv ex_slider" "slider_inv ?s0"
    by (simp_all add: slider_inv_def ex_slider_def slider_init_def)
  have n: "map_of (itemScores ex_slider) (item_id ?n) = None"
    "map_of (itemScores ?s0) (item_id ?n) = None"
    by (simp_all add: ex_slider_def ex_item_def slider_init_def)
  have r: "round2 (js_div (js_add 80 50) 2) = 65" "round2 (js_div (js_add 100 80) 2) = 90"
    "round2 (js_div (js_add 1 20) 2) = 21 / 2"
    by code_simp+
  have h1: "item_id ?n \<noteq> item_id (ex_item ''b'') \<and> Suc 0 < length (sortedItems ex_items ex_slider)
          \<and> item_id (sortedItems ex_items ex_slider ! Suc 0) = item_id (ex_item ''b'')
          \<and> item_id (sortedItems ex_items ex_slider ! 0) \<noteq> item_id ?n
          \<and> map_of (itemScores ex_slider) (item_id (sortedItems ex_items ex_slider ! 0)) = Some 80
          \<and> map_of (itemScores ex_slider) (item_id (ex_item ''b'')) = Some 50"
    unfolding sortedItems_ex by (simp add: ex_item_def ex_slider_def)
  have h2: "item_id ?n \<noteq> item_id (ex_item ''a'') \<and> sortedItems ex_items ex_slider \<noteq> []
          \<and> item_id (hd (sortedItems ex_items ex_slider)) = item_id (ex_item ''a'')
          \<and> map_of (itemScores ex_slider) (item_id (ex_item ''a'')) = Some 80"
    unfolding sortedItems_ex by (simp add: ex_item_def ex_slider_def)
  have v: "(if rankedItemIds ex_slider = [] then 1
            else round2 (js_div (js_add 1 (Min (set (placedScores ex_slider)))) 2)) = 21 / 2"
  proof -
    have "placedScores ex_slider = [80, 50, 20]"
      by (simp add: placedScores_def ex_slider_def List.map_filter_def)
    then have "Min (set (placedScores ex_slider)) = 20" by simp
    moreover have "rankedItemIds ex_slider \<noteq> []" by (simp add: ex_slider_def)
    ultimately show ?thesis using r(3) by simp
  qed
  have v0: "rankedItemIds ?s0 = []" by (simp add: slider_init_def)
  from handler_midpoint_law [OF d g, of "ex_item ''b''" 0 80 50] h1
  have "map_of (itemScores (handleDropOnItem ex_items (ex_item ''b'') ex_slider)) (item_id ?n)
        = Some (round2 (js_div (js_add 80 50) 2))" by blast
  then have a: "map_of (itemScores (handleDropOnItem ex_items (ex_item ''b'') ex_slider)) ''n'' = Some 65"
    unfolding r by (simp add: ex_item_def)
  from handler_midpoint_law [OF d g, of "ex_item ''a''" 0 0 80] h2
  have "map_of (itemScores (handleDropOnItem ex_items (ex_item ''a'') ex_slider)) (item_id ?n)
        = Some (round2 (js_div (js_add 100 80) 2))" by blast
  then have b: "map_of (itemScores (handleDropOnItem ex_items (ex_item ''a'') ex_slider)) ''n'' = Some 90"
    unfolding r by (simp add: ex_item_def)
  from handler_midpoint_law [OF d g, of "ex_item ''a''" 0 0 0] i(1) n(1)
  have "map_of (itemScores (handleDropToRanked ex_items ex_slider)) (item_id ?n)
        = Some (if rankedItemIds ex_slider = [] then 1
                else round2 (js_div (js_add 1 (Min (set (placedScores ex_slider)))) 2))" by blast
  then have c: "map_of (itemScores (handleDropToRanked ex_items ex_slider)) ''n'' = Some (21 / 2)"
    unfolding v by (simp add: ex_item_def)
  from handler_midpoint_law [OF d g0, of "ex_item ''a''" 0 0 0] i(2) n(2)
  have "map_of (itemScores (handleDropToRanked ex_items ?s0)) (item_id ?n)
        = Some (if rankedItemIds ?s0 = [] then 1
                else round2 (js_div (js_add 1 (Min (set (placedScores ?s0)))) 2))" by blast
  then have e: "map_of (itemScores (handleDropToRanked ex_items ?s0)) ''n'' = Some 1"
    unfolding v0 by (simp add: ex_item_def)
  from a b c e show ?thesis by simp
qed

section \<open>Slider mode: one drop on a ranked item\<close>

text \<open>
  The setter calls of a handler, applied to the state it read, give the state that the
  handler taken alone produces. A drop on a ranked item runs both handlers: for a dragged
  item that is not placed the scores are those that \<open>handleDropToRanked\<close> sets, for a
  placed one they are those of \<open>handleDropOnItem\<close>.
\<close>

lemma handleDropOnItem_as_writes:
  "apply_writes (handleDropOnItem_writes initialItems targetItem st) st
     = handleDropOnItem initialItems targetItem st"
  by (simp add: apply_writes_def handleDropOnItem_writes_def handleDropOnItem_def no_writes_def
      Let_def split: option.splits)

lemma handleDropToRanked_as_writes:
  "apply_writes (handleDropToRanked_writes initialItems st) st = handleDropToRanked initialItems st"
  by (simp add: apply_writes_def handleDropToRanked_writes_def handleDropToRanked_def no_writes_def
      Let_def split: option.splits)

lemma dropOnItemEvent_unranked:
  assumes "draggedItem st = Some d" "item_id d \<notin> set (rankedItemIds st)"
    and "map_of (itemScores st) (item_id d) = None"
  shows "itemScores (dropOnItemEvent initialItems targetItem st)
           = itemScores (handleDropToRanked initialItems st)"
    and "rankedItemIds (dropOnItemEvent initialItems targetItem st)
           = rankedItemIds (handleDropToRanked initialItems st)"
    and "sortedItemOrder (dropOnItemEvent initialItems targetItem st)
           = sortedItemOrder (handleDropToRanked initialItems st)"
  using assms
  by (simp_all add: dropOnItemEvent_def apply_writes_def handleDropToRanked_writes_def
      handleDropToRanked_def Let_def)

lemma dropOnItemEvent_ranked:
  assumes "draggedItem st = Some d" "item_id d \<in> set (rankedItemIds st)"
  shows "itemScores (dropOnItemEvent initialItems targetItem st)
           = itemScores (handleDropOnItem initialItems targetItem st)"
    and "rankedItemIds (dropOnItemEvent initialItems targetItem st)
           = rankedItemIds (handleDropOnItem initialItems targetItem st)"
    and "sortedItemOrder (dropOnItemEvent initialItems targetItem st)
           = sortedItemOrder (handleDropOnItem initialItems targetItem st)"
  using assms
  by (simp_all add: dropOnItemEvent_def apply_writes_def handleDropToRanked_writes_def no_writes_def
      handleDropOnItem_as_writes [unfolded apply_writes_def])

lemma sortedItems_unsorted: "sortedItems ex_items ex_unsorted = map ex_item [''c'', ''a'', ''b'']"
  by (simp add: sortedItems_def sortByScore_def getRankedItems_def scoreOr50_def
      ex_items_def ex_slider_def ex_unsorted_def ex_item_def)

lemma round2_examples:
  "round2 (js_div (js_add 80 50) 2) = 65"
  "round2 (js_div (js_add 1 20) 2) = 21 / 2"
  "round2 (js_div (js_add 100 50) 2) = 75"
  "round2 (js_div (js_add 1 (binary64 (101 / 100))) 2) = 1"
  "binary64 (101 / 100) = 4548635623644201 / 4503599627370496"
  by code_simp+

lemma round2_tie:
  "round2 (js_div (js_add 1 (4548635623644201 / 4503599627370496)) 2) = 1"
  by code_simp

lemma handleDropToRanked_examples:
  "itemScores (handleDropToRanked ex_items ex_slider)
     = [(''a'', 80), (''b'', 50), (''c'', 20), (''n'', 21 / 2)]"
  "itemScores (handleDropToRanked ex_items ex_unsorted)
     = [(''a'', 50), (''b'', 20), (''c'', 80), (''n'', 21 / 2)]"
  "itemScores (handleDropToRanked ex_items ex_tie)
     = [(''a'', 50), (''b'', binary64 (101 / 100)), (''c'', 80), (''n'', 1)]"
  by (simp_all add: handleDropToRanked_def ex_slider_def ex_unsorted_def ex_tie_def ex_item_def
      Let_def round2_examples round2_tie)

lemma ex_unranked:
  "draggedItem ex_slider = Some (ex_item ''n'')" "item_id (ex_item ''n'') \<notin> set (rankedItemIds ex_slider)"
  "map_of (itemScores ex_slider) (item_id (ex_item ''n'')) = None"
  "draggedItem ex_unsorted = Some (ex_item ''n'')" "item_id (ex_item ''n'') \<notin> set (rankedItemIds ex_unsorted)"
  "map_of (itemScores ex_unsorted) (item_id (ex_item ''n'')) = None"
  "draggedItem ex_tie = Some (ex_item ''n'')" "item_id (ex_item ''n'') \<notin> set (rankedItemIds ex_tie)"
  "map_of (itemScores ex_tie) (item_id (ex_item ''n'')) = None"
  by (simp_all add: ex_slider_def ex_unsorted_def ex_tie_def ex_item_def)

lemma handleDropOnItem_unsorted:
  "map_of (itemScores (handleDropOnItem ex_items (ex_item ''a'') ex_unsorted)) ''n'' = Some 65"
proof -
  have d: "distinct (map item_id ex_items)" by (simp add: ex_items_def ex_item_def)
  have h: "item_id (ex_item ''n'') \<noteq> item_id (ex_item ''a'')
          \<and> Suc 0 < length (sortedItems ex_items ex_unsorted)
          \<and> item_id (sortedItems ex_items ex_unsorted ! Suc 0) = item_id (ex_item ''a'')
          \<and> item_id (sortedItems ex_items ex_unsorted ! 0) \<noteq> item_id (ex_item ''n'')
          \<and> map_of (itemScores ex_unsorted) (item_id (sortedItems ex_items ex_unsorted ! 0)) = Some 80
          \<and> map_of (itemScores ex_unsorted) (item_id (ex_item ''a'')) = Some 50"
    unfolding sortedItems_unsorted by (simp add: ex_item_def ex_unsorted_def ex_slider_def)
  from handler_midpoint_law [OF d ex_unranked(4), of "ex_item ''a''" 0 80 50] h
  have "map_of (itemScores (handleDropOnItem ex_items (ex_item ''a'') ex_unsorted)) (item_id (ex_item ''n''))
        = Some (round2 (js_div (js_add 80 50) 2))" by blast
  then show ?thesis unfolding round2_examples by (simp add: ex_item_def)
qed

text \<open>
  Claim C1 says that an item dropped on a ranked target other than itself receives the
  midpoint, rounded to two decimals, of the scores of the target and of the item listed
  just before it. The theorem evaluates one drop of the item \<open>n\<close>, which is not placed, on
  a ranked item. In the first state, with the scores 80, 50 and 20 and the target scored
  50, the handler of the item computes 65, and the handler of the ranked area, which the
  same event reaches, replaces it by the midpoint of 1 and the least score, 10.5. The
  second state has the same scores in another order of the catalogue, with the same
  result. In the third state the least score is the number written \<open>1.01\<close>, and the item
  ends with the score 1.
\<close>

theorem slider_drop_event_misses_midpoint:
  "map_of (itemScores (handleDropOnItem ex_items (ex_item ''b'') ex_slider)) ''n'' = Some 65
   \<and> map_of (itemScores (dropOnItemEvent ex_items (ex_item ''b'') ex_slider)) ''n'' = Some (21 / 2)
   \<and> map_of (itemScores (handleDropOnItem ex_items (ex_item ''a'') ex_unsorted)) ''n'' = Some 65
   \<and> map_of (itemScores (dropOnItemEvent ex_items (ex_item ''a'') ex_unsorted)) ''n'' = Some (21 / 2)
   \<and> map_of (itemScores (dropOnItemEvent ex_items (ex_item ''a'') ex_tie)) ''n'' = Some 1"
proof -
  have "map_of (itemScores (handleDropOnItem ex_items (ex_item ''b'') ex_slider)) ''n'' = Some 65"
    using handler_midpoint_law_examples by simp
  moreover have "map_of (itemScores (dropOnItemEvent ex_items (ex_item ''b'') ex_slider)) ''n''
                 = Some (21 / 2)"
    unfolding dropOnItemEvent_unranked(1) [OF ex_unranked(1-3)] handleDropToRanked_examples by simp
  moreover note handleDropOnItem_unsorted
  moreover have "map_of (itemScores (dropOnItemEvent ex_items (ex_item ''a'') ex_unsorted)) ''n''
                 = Some (21 / 2)"
    unfolding dropOnItemEvent_unranked(1) [OF ex_unranked(4-6)] handleDropToRanked_examples by simp
  moreover have "map_of (itemScores (dropOnItemEvent ex_items (ex_item ''a'') ex_tie)) ''n'' = Some 1"
    unfolding dropOnItemEvent_unranked(1) [OF ex_unranked(7-9)] handleDropToRanked_examples by simp
  ultimately show ?thesis by simp
qed

section \<open>Slider mode: drops that change nothing\<close>

text \<open>
  Claim C7. Dropping the dragged item on itself, or on the item listed directly after it
  in the descending order, leaves the score map, the dragged item's score, the set of
  placed items and the stored order as they were.
\<close>

theorem slider_noop_drop:
  assumes "distinct (map item_id initialItems)" and "draggedItem st = Some d"
    and "item_id d = item_id t
         \<or> (\<exists>k. Suc k < length (sortedItems initialItems st)
                \<and> item_id (sortedItems initialItems st ! k) = item_id d
                \<and> item_id (sortedItems initialItems st ! Suc k) = item_id t)"
  shows "itemScores (handleDropOnItem initialItems t st) = itemScores st
       \<and> rankedItemIds (handleDropOnItem initialItems t st) = rankedItemIds st
       \<and> sortedItemOrder (handleDropOnItem initialItems t st) = sortedItemOrder st
       \<and> map_of (itemScores (handleDropOnItem initialItems t st)) (item_id d)
           = map_of (itemScores st) (item_id d)"
proof -
  from assms(3) have "item_id d = item_id t \<or> dropOnItemScore initialItems d t st = None"
  proof
    assume "item_id d = item_id t"
    then show ?thesis by simp
  next
    assume "\<exists>k. Suc k < length (sortedItems initialItems st)
                \<and> item_id (sortedItems initialItems st ! k) = item_id d
                \<and> item_id (sortedItems initialItems st ! Suc k) = item_id t"
    then obtain k where "Suc k < length (sortedItems initialItems st)"
      "item_id (sortedItems initialItems st ! k) = item_id d"
      "item_id (sortedItems initialItems st ! Suc k) = item_id t" by blast
    with assms(1) have "dropOnItemScore initialItems d t st = None"
      by (intro dropOnItemScore_already_above [where k = k]) simp_all
    then show ?thesis by simp
  qed
  from handleDropOnItem_noop [OF assms(2) this] show ?thesis by simp
qed

theorem slider_noop_drop_witness:
  "itemScores (handleDropOnItem ex_items (ex_item ''b'') (ex_slider\<lparr>draggedItem := Some (ex_item ''a'')\<rparr>))
     = [(''a'', 80), (''b'', 50), (''c'', 20)]
   \<and> rankedItemIds (handleDropOnItem ex_items (ex_item ''b'') (ex_slider\<lparr>draggedItem := Some (ex_item ''a'')\<rparr>))
     = [''a'', ''b'', ''c'']
   \<and> itemScores (handleDropOnItem ex_items (ex_item ''a'') (ex_slider\<lparr>draggedItem := Some (ex_item ''a'')\<rparr>))
     = [(''a'', 80), (''b'', 50), (''c'', 20)]
   \<and> rankedItemIds (handleDropOnItem ex_items (ex_item ''a'') (ex_slider\<lparr>draggedItem := Some (ex_item ''a'')\<rparr>))
     = [''a'', ''b'', ''c'']"
proof -
  let ?st = "ex_slider\<lparr>draggedItem := Some (ex_item ''a'')\<rparr>"
  have d: "distinct (map item_id ex_items)"
    by (simp add: ex_items_def ex_item_def)
  have g: "draggedItem ?st = Some (ex_item ''a'')" by simp
  have s: "sortedItems ex_items ?st = map ex_item [''a'', ''b'', ''c'']"
    using sortedItems_ex by (simp add: sortedItems_def)
  have h1: "item_id (ex_item ''a'') = item_id (ex_item ''b'')
         \<or> (\<exists>k. Suc k < length (sortedItems ex_items ?st)
                \<and> item_id (sortedItems ex_items ?st ! k) = item_id (ex_item ''a'')
                \<and> item_id (sortedItems ex_items ?st ! Suc k) = item_id (ex_item ''b''))"
    unfolding s by (intro disjI2 exI [of _ 0]) simp
  have h2: "item_id (ex_item ''a'') = item_id (ex_item ''a'')
         \<or> (\<exists>k. Suc k < length (sortedItems ex_items ?st)
                \<and> item_id (sortedItems ex_items ?st ! k) = item_id (ex_item ''a'')
                \<and> item_id (sortedItems ex_items ?st ! Suc k) = item_id (ex_item ''a''))"
    by simp
  have e: "itemScores ?st = [(''a'', 80), (''b'', 50), (''c'', 20)]"
    "rankedItemIds ?st = [''a'', ''b'', ''c'']"
    by (simp_all add: ex_slider_def)
  from slider_noop_drop [OF d g h1] slider_noop_drop [OF d g h2] e
  show ?thesis by simp
qed
section \<open>Slider mode: the order and the invariant\<close>

text \<open>
  The list that \<open>handleDropOnItem\<close> sorts holds the placed items of the catalogue; it is
  descending by \<open>score || 50\<close>, and items of equal score keep the order of the catalogue.
\<close>

lemma sortedItems_descending:
  "sorted (map (\<lambda>a. - scoreOr50 (itemScores st) (item_id a)) (sortedItems initialItems st))"
  "set (sortedItems initialItems st)
     = {a \<in> set initialItems. item_id a \<in> set (rankedItemIds st)}"
  by (simp_all add: sortedItems_def sortByScore_def getRankedItems_def)

lemma sortedItems_stable:
  "filter (\<lambda>a. - scoreOr50 (itemScores st) (item_id a) = k) (sortedItems initialItems st)
     = filter (\<lambda>a. - scoreOr50 (itemScores st) (item_id a) = k)
         (getRankedItems initialItems (rankedItemIds st))"
  by (simp add: sortedItems_def sortByScore_def sort_key_stable)

lemma slider_inv_init: "slider_inv slider_init"
  by (simp add: slider_inv_def slider_init_def)

lemma keys_update: "fst ` set (AList.update k v al) = insert k (fst ` set al)"
  by (induction al) auto

lemma keys_delete: "fst ` set (AList.delete k al) = fst ` set al - {k}"
  by (force simp: AList.delete_eq)

lemma slider_inv_place:
  assumes inv: "slider_inv st"
  shows "slider_inv (st\<lparr>itemScores := AList.update k v (itemScores st),
                         rankedItemIds := (if k \<in> set (rankedItemIds st) then rankedItemIds st
                                           else rankedItemIds st @ [k]),
                         sortedItemOrder := so, draggedItem := dr, dragOverItemId := dov\<rparr>)"
  using inv by (simp add: slider_inv_def distinct_update keys_update insert_absorb)

lemma slider_inv_unplace:
  assumes inv: "slider_inv st"
  shows "slider_inv (st\<lparr>rankedItemIds := removeAll k (rankedItemIds st),
                         itemScores := AList.delete k (itemScores st),
                         sortedItemOrder := so, draggedItem := dr, dragOverItemId := dov\<rparr>)"
  using inv by (simp add: slider_inv_def distinct_delete keys_delete distinct_removeAll)


lemma handleDropToRanked_inv: "slider_inv st \<Longrightarrow> slider_inv (handleDropToRanked initialItems st)"
proof -
  assume inv: "slider_inv st"
  show ?thesis
  proof (cases "draggedItem st")
    case None
    with inv show ?thesis by (simp add: handleDropToRanked_def)
  next
    case (Some d)
    show ?thesis
    proof (cases "item_id d \<in> set (rankedItemIds st)")
      case True
      with Some inv show ?thesis by (simp add: handleDropToRanked_def slider_inv_def)
    next
      case False
      with inv have "item_id d \<notin> fst ` set (itemScores st)" by (simp add: slider_inv_def)
      then have n: "map_of (itemScores st) (item_id d) = None" by (simp add: map_of_eq_None_iff)
      from Some False n slider_inv_place [OF inv, where k = "item_id d"] show ?thesis
        by (simp add: handleDropToRanked_def Let_def slider_inv_def)
    qed
  qed
qed

lemma handleDropToUnranked_inv: "slider_inv st \<Longrightarrow> slider_inv (handleDropToUnranked initialItems st)"
  using slider_inv_unplace [of st]
  by (cases "draggedItem st") (simp_all add: handleDropToUnranked_def Let_def slider_inv_def)

lemma handleDropOnItem_inv: "slider_inv st \<Longrightarrow> slider_inv (handleDropOnItem initialItems t st)"
  using slider_inv_place [of st]
  by (simp add: handleDropOnItem_def Let_def slider_inv_def split: option.splits)

lemma handleScoreChange_slider_inv:
  "slider_inv st \<Longrightarrow> itemId \<in> set (rankedItemIds st) \<Longrightarrow>
   slider_inv (handleScoreChange_slider itemId v st)"
  by (simp add: handleScoreChange_slider_def slider_inv_def distinct_update keys_update insert_absorb)

text \<open>
  The invariant assumed of the state in the midpoint law holds initially and after every
  event, a score change being made with the slider of a placed item.
\<close>

lemma slider_step_inv:
  assumes "slider_inv st"
    and "\<And>itemId v. ev = SliderScoreChange itemId v \<Longrightarrow> itemId \<in> set (rankedItemIds st)"
  shows "slider_inv (slider_step initialItems st ev)"
proof (cases ev)
  case (SliderDragStart item)
  with assms(1) show ?thesis by (simp add: slider_inv_def handleDragStart_def)
next
  case SliderDropToRanked
  with assms(1) show ?thesis by (simp add: handleDropToRanked_inv)
next
  case SliderDropToUnranked
  with assms(1) show ?thesis by (simp add: handleDropToUnranked_inv)
next
  case (SliderDropOnItem targetItem)
  with assms(1) show ?thesis by (simp add: handleDropOnItem_inv)
next
  case (SliderScoreChange itemId v)
  with assms show ?thesis by (simp add: handleScoreChange_slider_inv)
next
  case (SliderChangeStart itemId)
  with assms(1) show ?thesis by (simp add: slider_inv_def handleSliderChangeStart_def)
next
  case SliderChangeEnd
  with assms(1) show ?thesis by (simp add: slider_inv_def handleSliderChangeEnd_def)
next
  case SliderReset
  with assms(1) show ?thesis by (simp add: slider_inv_def handleReset_slider_def)
qed

section \<open>The graph builders\<close>

lemma buildRelations_slider_eq:
  "buildRelations_slider u rl scores ids rels =
     rels @ map (relationFor u rl scores) (enumerate (length rels) (filter (scored_slider scores) ids))"
proof (induction ids arbitrary: rels)
  case Nil
  then show ?case by simp
next
  case (Cons i ids)
  show ?case
  proof (cases "map_of scores i")
    case None
    then show ?thesis using Cons.IH by (simp add: scored_slider_def)
  next
    case (Some s)
    then show ?thesis using Cons.IH by (simp add: scored_slider_def relationFor_def)
  qed
qed

lemma buildRelations_free_eq:
  "buildRelations_free u rl scores ids rels =
     rels @ map (relationFor u rl scores) (enumerate (length rels) (filter (scored_free scores) ids))"
proof (induction ids arbitrary: rels)
  case Nil
  then show ?case by simp
next
  case (Cons i ids)
  show ?case
  proof (cases "map_of scores i")
    case None
    then show ?thesis using Cons.IH by (simp add: scored_free_def)
  next
    case (Some s)
    then show ?thesis using Cons.IH by (simp add: scored_free_def relationFor_def)
  qed
qed

lemma map_rel_to_relationFor:
  "map rel_to (map (relationFor u rl scores) (enumerate n xs)) = xs"
  by (induction xs arbitrary: n) (simp_all add: relationFor_def)

lemma map_rel_id_relationFor:
  "map rel_id (map (relationFor u rl scores) (enumerate n xs)) = map u [n ..< n + length xs]"
  by (induction xs arbitrary: n) (simp_all add: relationFor_def upt_rec)

lemma count_filter_distinct:
  "distinct xs \<Longrightarrow> length (filter (\<lambda>x. x = i) (filter P xs)) = (if i \<in> set xs \<and> P i then 1 else 0)"
  by (induction xs) auto

lemma count_by_rel_to:
  "length (filter (\<lambda>r. rel_to r = i) rels) = length (filter (\<lambda>x. x = i) (map rel_to rels))"
  by (induction rels) auto

lemma slider_step_distinct:
  "distinct (rankedItemIds st) \<Longrightarrow> distinct (rankedItemIds (slider_step initialItems st ev))"
  by (cases ev)
     (auto simp: handleDragStart_def handleDropToRanked_def handleDropToUnranked_def
        handleDropOnItem_def handleScoreChange_slider_def handleSliderChangeStart_def
        handleSliderChangeEnd_def handleReset_slider_def Let_def distinct_removeAll
        split: option.splits)

lemma slider_run_snoc:
  "slider_run initialItems (evs @ [ev]) = slider_step initialItems (slider_run initialItems evs) ev"
  by (simp add: slider_run_def)

lemma slider_run_distinct: "distinct (rankedItemIds (slider_run initialItems evs))"
proof (induction evs rule: rev_induct)
  case Nil
  show ?case by (simp add: slider_run_def slider_init_def)
next
  case (snoc ev evs)
  then show ?case unfolding slider_run_snoc by (rule slider_step_distinct)
qed

lemma free_step_inv: "free_inv st \<Longrightarrow> free_inv (free_step parseFloat st ev)"
  by (cases ev)
     (auto simp: free_inv_def handleDragStart_def handleDropToRanked_free_def
        handleDropToUnranked_free_def handleScoreChange_def handleReset_free_def
        update_conv' delete_conv' distinct_removeAll
        split: option.splits if_splits)

lemma free_run_snoc:
  "free_run parseFloat (evs @ [ev]) = free_step parseFloat (free_run parseFloat evs) ev"
  by (simp add: free_run_def)

lemma free_run_inv: "free_inv (free_run parseFloat evs)"
proof (induction evs rule: rev_induct)
  case Nil
  show ?case by (simp add: free_run_def free_init_def free_inv_def)
next
  case (snoc ev evs)
  then show ?case unfolding free_run_snoc by (rule free_step_inv)
qed

lemma scored_free_iff: "free_inv st \<Longrightarrow> scored_free (itemScores st) i \<longleftrightarrow> map_of (itemScores st) i \<noteq> None"
  by (auto simp: free_inv_def scored_free_def split: option.splits)

lemma handleDrop_distinct:
  assumes "distinct (map rel_to (relations (graph st)))"
  shows "distinct (map rel_to (relations (graph (handleDrop tle newId targetScore st))))"
proof (cases "draggedItem st")
  case None
  with assms show ?thesis by (simp add: handleDrop_def)
next
  case (Some d)
  from assms have "distinct (map rel_to (filter (\<lambda>rel. rel_to rel \<noteq> item_id d) (relations (graph st))))"
    by (rule distinct_map_filter)
  with Some show ?thesis
    by (cases targetScore) (auto simp: handleDrop_def Let_def)
qed

lemma tier_step_distinct:
  "distinct (map rel_to (relations (graph st))) \<Longrightarrow>
   distinct (map rel_to (relations (graph (tier_step tle items st ev))))"
  by (cases ev) (simp_all add: handleDrop_distinct handleDragStart_def handleReset_def)

lemma tier_run_snoc:
  "tier_run tle items (evs @ [ev]) = tier_step tle items (tier_run tle items evs) ev"
  by (simp add: tier_run_def)

lemma tier_run_distinct: "distinct (map rel_to (relations (graph (tier_run tle items evs))))"
proof (induction evs rule: rev_induct)
  case Nil
  show ?case by (simp add: tier_run_def tier_init_def)
next
  case (snoc ev evs)
  then show ?case unfolding tier_run_snoc by (rule tier_step_distinct)
qed

lemma tier_step_entities:
  "entities (graph st) = of_rank_list tle # map of_item items \<Longrightarrow>
   entities (graph (tier_step tle items st ev)) = of_rank_list tle # map of_item items"
  by (cases ev) (auto simp: handleDrop_def handleDragStart_def handleReset_def Let_def split: option.splits)

lemma tier_run_entities: "entities (graph (tier_run tle items evs)) = of_rank_list tle # map of_item items"
proof (induction evs rule: rev_induct)
  case Nil
  show ?case by (simp add: tier_run_def tier_init_def)
next
  case (snoc ev evs)
  then show ?case unfolding tier_run_snoc by (rule tier_step_entities)
qed

lemma tier_step_from:
  "\<forall>r \<in> set (relations (graph st)). rel_from r = rl_id tle \<Longrightarrow>
   \<forall>r \<in> set (relations (graph (tier_step tle items st ev))). rel_from r = rl_id tle"
  by (cases ev) (auto simp: handleDrop_def handleDragStart_def handleReset_def Let_def split: option.splits)

lemma tier_run_from: "\<forall>r \<in> set (relations (graph (tier_run tle items evs))). rel_from r = rl_id tle"
proof (induction evs rule: rev_induct)
  case Nil
  show ?case by (simp add: tier_run_def tier_init_def)
next
  case (snoc ev evs)
  then show ?case unfolding tier_run_snoc by (rule tier_step_from)
qed

lemma buildGraph_slider_relations:
  "relations (buildGraph_slider u rl items st) =
     map (relationFor u rl (itemScores st))
       (enumerate 0 (filter (scored_slider (itemScores st)) (rankedItemIds st)))"
  by (simp add: buildGraph_slider_def buildRelations_slider_eq)

lemma buildGraph_free_relations:
  "relations (buildGraph_free u rl items st) =
     map (relationFor u rl (itemScores st))
       (enumerate 0 (filter (scored_free (itemScores st)) (rankedItemIds st)))"
  by (simp add: buildGraph_free_def buildRelations_free_eq)

lemma relations_of_placements:
  assumes rels: "rels = map (relationFor u rl scores) (enumerate 0 (filter P ranked))"
    and d: "distinct ranked"
    and P: "\<And>i. P i \<longleftrightarrow> map_of scores i \<noteq> None"
  shows "(\<forall>i. length (filter (\<lambda>r. rel_to r = i) rels) =
              (if i \<in> set ranked \<and> map_of scores i \<noteq> None then 1 else 0))
       \<and> (\<forall>r \<in> set rels. rel_from r = rl_id rl \<and> map_of scores (rel_to r) = Some (rel_score r))
       \<and> map rel_id rels = map u [0 ..< length rels]"
proof (intro conjI allI ballI)
  fix i
  have "length (filter (\<lambda>r. rel_to r = i) rels) = length (filter (\<lambda>x. x = i) (filter P ranked))"
    unfolding count_by_rel_to rels map_rel_to_relationFor ..
  also have "\<dots> = (if i \<in> set ranked \<and> P i then 1 else 0)"
    using d by (rule count_filter_distinct)
  finally show "length (filter (\<lambda>r. rel_to r = i) rels) =
              (if i \<in> set ranked \<and> map_of scores i \<noteq> None then 1 else 0)"
    by (simp add: P)
next
  fix r assume "r \<in> set rels"
  then obtain k i where r: "r = relationFor u rl scores (k, i)"
    and "(k, i) \<in> set (enumerate 0 (filter P ranked))"
    unfolding rels by auto
  then have "i \<in> snd ` set (enumerate 0 (filter P ranked))" by force
  moreover have "snd ` set (enumerate 0 (filter P ranked)) = set (filter P ranked)"
    by (simp only: set_map [symmetric] map_snd_enumerate)
  ultimately have "i \<in> set (filter P ranked)" by simp
  then have "map_of scores i \<noteq> None" by (simp add: P)
  then show "rel_from r = rl_id rl" and "map_of scores (rel_to r) = Some (rel_score r)"
    by (auto simp: r relationFor_def)
next
  show "map rel_id rels = map u [0 ..< length rels]"
    unfolding rels map_rel_id_relationFor by simp
qed

text \<open>
  The graph of the tier page against the placements of the spec: after every sequence of
  events the relations to an item are the one relation of its tier, or none.
\<close>

lemma filter_to_after_removal:
  "filter (\<lambda>r. rel_to r = i) (filter (\<lambda>rel. rel_to rel \<noteq> k) rels)
     = (if i = k then [] else filter (\<lambda>r. rel_to r = i) rels)"
  by (induction rels) auto

lemma tier_step_refines:
  assumes dr: "draggedItem st = spec_dragged sp"
    and rel: "\<forall>i. map (\<lambda>r. (rel_from r, rel_to r, rel_score r))
                   (filter (\<lambda>r. rel_to r = i) (relations (graph st)))
               = (case spec_tier_of sp i of Some s \<Rightarrow> [(rl_id tle, i, s)] | None \<Rightarrow> [])"
  shows "draggedItem (tier_step tle items st ev) = spec_dragged (spec_tier_step sp ev)
       \<and> (\<forall>i. map (\<lambda>r. (rel_from r, rel_to r, rel_score r))
                   (filter (\<lambda>r. rel_to r = i) (relations (graph (tier_step tle items st ev))))
               = (case spec_tier_of (spec_tier_step sp ev) i of
                    Some s \<Rightarrow> [(rl_id tle, i, s)] | None \<Rightarrow> []))"
proof (cases ev)
  case (TierDragStart item)
  with dr rel show ?thesis by (simp add: handleDragStart_def)
next
  case TierReset
  with dr rel show ?thesis by (simp add: handleReset_def)
next
  case (TierDrop targetScore newId)
  show ?thesis
  proof (cases "draggedItem st")
    case None
    with dr rel TierDrop show ?thesis by (simp add: handleDrop_def)
  next
    case (Some d)
    with dr have sd: "spec_dragged sp = Some d" by simp
    show ?thesis
    proof (cases targetScore)
      case None
      with Some sd TierDrop rel show ?thesis
        by (simp add: handleDrop_def Let_def filter_to_after_removal del: filter_filter)
    next
      case (Some sc)
      with \<open>draggedItem st = Some d\<close> sd TierDrop rel show ?thesis
        by (simp add: handleDrop_def Let_def filter_to_after_removal del: filter_filter)
    qed
  qed
qed

lemma spec_tier_run_snoc: "spec_tier_run (evs @ [ev]) = spec_tier_step (spec_tier_run evs) ev"
  by (simp add: spec_tier_run_def)

lemma tier_run_refines:
  "draggedItem (tier_run tle items evs) = spec_dragged (spec_tier_run evs)
   \<and> (\<forall>i. map (\<lambda>r. (rel_from r, rel_to r, rel_score r))
             (filter (\<lambda>r. rel_to r = i) (relations (graph (tier_run tle items evs))))
          = (case spec_tier_placements evs i of Some s \<Rightarrow> [(rl_id tle, i, s)] | None \<Rightarrow> []))"
proof (induction evs rule: rev_induct)
  case Nil
  show ?case by (simp add: tier_run_def tier_init_def spec_tier_run_def spec_tier_placements_def)
next
  case (snoc ev evs)
  then show ?case
    unfolding tier_run_snoc spec_tier_run_snoc spec_tier_placements_def
    by (intro tier_step_refines) simp_all
qed

lemma tier_step_ids:
  assumes "\<forall>r \<in> set (relations (graph st)). TierDrop (Some (rel_score r)) (rel_id r) \<in> set evs"
  shows "\<forall>r \<in> set (relations (graph (tier_step tle items st ev))).
           TierDrop (Some (rel_score r)) (rel_id r) \<in> set (evs @ [ev])"
  using assms
  by (cases ev) (auto simp: handleDrop_def handleDragStart_def handleReset_def Let_def
      split: option.splits)

lemma tier_run_ids:
  "\<forall>r \<in> set (relations (graph (tier_run tle items evs))).
     TierDrop (Some (rel_score r)) (rel_id r) \<in> set evs"
proof (induction evs rule: rev_induct)
  case Nil
  show ?case by (simp add: tier_run_def tier_init_def)
next
  case (snoc ev evs)
  then show ?case unfolding tier_run_snoc by (rule tier_step_ids)
qed

lemma ex_tier_run2:
  "relations (graph (tier_run ex_rank_list ex_items
     [TierDragStart (ex_item ''a''), TierDrop (Some 6) ''r1'',
      TierDragStart (ex_item ''b''), TierDrop (Some 5) ''r2'',
      TierDragStart (ex_item ''b''), TierDrop None ''r3'']))
   = [\<lparr>rel_id = ''r1'', rel_from = ''rl'', rel_to = ''a'', rel_score = 6\<rparr>]"
  by (simp add: tier_run_def tier_init_def handleDragStart_def handleDrop_def ex_item_def
      ex_rank_list_def Let_def)

lemma ex_spec_tier:
  "spec_tier_placements
     [TierDragStart (ex_item ''a''), TierDrop (Some 6) ''r1'',
      TierDragStart (ex_item ''b''), TierDrop (Some 5) ''r2'',
      TierDragStart (ex_item ''b''), TierDrop None ''r3''] ''a'' = Some 6"
  "spec_tier_placements
     [TierDragStart (ex_item ''a''), TierDrop (Some 6) ''r1'',
      TierDragStart (ex_item ''b''), TierDrop (Some 5) ''r2'',
      TierDragStart (ex_item ''b''), TierDrop None ''r3''] ''b'' = None"
  "spec_tier_placements
     [TierDragStart (ex_item ''a''), TierDrop (Some 6) ''r1'',
      TierDragStart (ex_item ''b''), TierDrop (Some 5) ''r2'',
      TierDragStart (ex_item ''b''), TierDrop None ''r3''] ''c'' = None"
  by (simp_all add: spec_tier_placements_def spec_tier_run_def ex_item_def)

text \<open>
  Claim C2. In every session of the slider page and of the free page, the graph built
  from the state has the entity list \<open>[rankList, ...items]\<close>, whether the items are placed
  or not, and exactly one relation for each placed item that has a score and none for any
  other item; each relation leads from the rank list to the item, carries the item's
  score, and has an identifier drawn from the generator during the build. On the tier
  page, whose state is the graph itself, the entity list is the same, every relation
  leads from the tier list, and no item has more than one relation: an item placed in a
  tier has exactly one relation, which carries the score of that tier, an item never
  placed or returned to the pool has none, and the identifier and the score of every
  relation are those of the drop that created it.
\<close>

theorem graph_build_relations:
  "(let st = slider_run initialItems evs_slider;
        g = buildGraph_slider randomUUID rankListEntity initialItems st
    in entities g = of_rank_list rankListEntity # map of_item initialItems
       \<and> (\<forall>i. length (filter (\<lambda>r. rel_to r = i) (relations g)) =
                (if i \<in> set (rankedItemIds st) \<and> map_of (itemScores st) i \<noteq> None then 1 else 0))
       \<and> (\<forall>r \<in> set (relations g).
             rel_from r = rl_id rankListEntity \<and> map_of (itemScores st) (rel_to r) = Some (rel_score r))
       \<and> map rel_id (relations g) = map randomUUID [0 ..< length (relations g)])
   \<and> (let st = free_run parseFloat evs_free;
        g = buildGraph_free randomUUID rankListEntity initialItems st
    in entities g = of_rank_list rankListEntity # map of_item initialItems
       \<and> (\<forall>i. length (filter (\<lambda>r. rel_to r = i) (relations g)) =
                (if i \<in> set (rankedItemIds st) \<and> map_of (itemScores st) i \<noteq> None then 1 else 0))
       \<and> (\<forall>r \<in> set (relations g).
             rel_from r = rl_id rankListEntity \<and> map_of (itemScores st) (rel_to r) = Some (rel_score r))
       \<and> map rel_id (relations g) = map randomUUID [0 ..< length (relations g)])
   \<and> (let g = graph (tier_run rankListEntity initialItems evs_tier)
    in entities g = of_rank_list rankListEntity # map of_item initialItems
       \<and> (\<forall>i. length (filter (\<lambda>r. rel_to r = i) (relations g)) \<le> 1)
       \<and> (\<forall>r \<in> set (relations g). rel_from r = rl_id rankListEntity)
       \<and> (\<forall>i. map (\<lambda>r. (rel_from r, rel_to r, rel_score r))
                  (filter (\<lambda>r. rel_to r = i) (relations g))
                = (case spec_tier_placements evs_tier i of
                     Some s \<Rightarrow> [(rl_id rankListEntity, i, s)] | None \<Rightarrow> []))
       \<and> (\<forall>r \<in> set (relations g).
             TierDrop (Some (rel_score r)) (rel_id r) \<in> set evs_tier))"
proof (intro conjI)
  let ?st = "slider_run initialItems evs_slider"
  have "distinct (rankedItemIds ?st)" by (rule slider_run_distinct)
  from relations_of_placements [OF buildGraph_slider_relations this]
  show "let st = ?st; g = buildGraph_slider randomUUID rankListEntity initialItems st
    in entities g = of_rank_list rankListEntity # map of_item initialItems
       \<and> (\<forall>i. length (filter (\<lambda>r. rel_to r = i) (relations g)) =
                (if i \<in> set (rankedItemIds st) \<and> map_of (itemScores st) i \<noteq> None then 1 else 0))
       \<and> (\<forall>r \<in> set (relations g).
             rel_from r = rl_id rankListEntity \<and> map_of (itemScores st) (rel_to r) = Some (rel_score r))
       \<and> map rel_id (relations g) = map randomUUID [0 ..< length (relations g)]"
    unfolding Let_def by (simp add: scored_slider_def) (simp add: buildGraph_slider_def)
next
  let ?st = "free_run parseFloat evs_free"
  have inv: "free_inv ?st" by (rule free_run_inv)
  then have "distinct (rankedItemIds ?st)" by (simp add: free_inv_def)
  from relations_of_placements [OF buildGraph_free_relations this scored_free_iff [OF inv]]
  show "let st = ?st; g = buildGraph_free randomUUID rankListEntity initialItems st
    in entities g = of_rank_list rankListEntity # map of_item initialItems
       \<and> (\<forall>i. length (filter (\<lambda>r. rel_to r = i) (relations g)) =
                (if i \<in> set (rankedItemIds st) \<and> map_of (itemScores st) i \<noteq> None then 1 else 0))
       \<and> (\<forall>r \<in> set (relations g).
             rel_from r = rl_id rankListEntity \<and> map_of (itemScores st) (rel_to r) = Some (rel_score r))
       \<and> map rel_id (relations g) = map randomUUID [0 ..< length (relations g)]"
    unfolding Let_def by simp (simp add: buildGraph_free_def)
next
  let ?g = "graph (tier_run rankListEntity initialItems evs_tier)"
  have d: "distinct (map rel_to (relations ?g))" by (rule tier_run_distinct)
  have c: "length (filter (\<lambda>r. rel_to r = i) (relations ?g)) \<le> 1" for i
  proof -
    have "length (filter (\<lambda>r. rel_to r = i) (relations ?g))
          = length (filter (\<lambda>x. x = i) (filter (\<lambda>_. True) (map rel_to (relations ?g))))"
      by (simp add: count_by_rel_to)
    also have "\<dots> \<le> 1" unfolding count_filter_distinct [OF d] by simp
    finally show ?thesis .
  qed
  show "let g = ?g
    in entities g = of_rank_list rankListEntity # map of_item initialItems
       \<and> (\<forall>i. length (filter (\<lambda>r. rel_to r = i) (relations g)) \<le> 1)
       \<and> (\<forall>r \<in> set (relations g). rel_from r = rl_id rankListEntity)
       \<and> (\<forall>i. map (\<lambda>r. (rel_from r, rel_to r, rel_score r))
                  (filter (\<lambda>r. rel_to r = i) (relations g))
                = (case spec_tier_placements evs_tier i of
                     Some s \<Rightarrow> [(rl_id rankListEntity, i, s)] | None \<Rightarrow> []))
       \<and> (\<forall>r \<in> set (relations g).
             TierDrop (Some (rel_score r)) (rel_id r) \<in> set evs_tier)"
    unfolding Let_def
    using c tier_run_entities [of rankListEntity initialItems evs_tier]
      tier_run_from [of rankListEntity initialItems evs_tier]
      tier_run_refines [of rankListEntity initialItems evs_tier]
      tier_run_ids [of rankListEntity initialItems evs_tier]
    by simp
qed

lemma parse_ex: "parse_decimal ''7'' = Some 7" "parse_decimal ''-2'' = Some (- 2)"
  "parse_decimal ''abc'' = None" "parse_decimal ''2.5'' = Some (5 / 2)"
  by (simp_all add: parse_decimal_def parse_unsigned_def digit_val_def)

lemma ex_slider_run:
  "slider_run ex_items [SliderDragStart (ex_item ''a''), SliderDropToRanked,
                        SliderDragStart (ex_item ''b''), SliderDropToRanked]
   = \<lparr>draggedItem = None, itemScores = [(''a'', 1), (''b'', 1)], rankedItemIds = [''a'', ''b''],
      activeSliderItemId = None, sortedItemOrder = [''a'', ''b''], dragOverItemId = None\<rparr>"
proof -
  have r: "round2 (js_div (js_add 1 1) 2) = 1" by code_simp
  show ?thesis
    by (simp add: slider_run_def slider_init_def handleDragStart_def handleDropToRanked_def
        ex_item_def ex_items_def Let_def r updateSortedOrder_def sortByScore_def
        getRankedItems_def scoreOr50_def)
qed

lemma ex_free_run:
  "free_run parse_decimal [FreeDragStart (ex_item ''a''), FreeDropToRanked,
                           FreeScoreChange ''a'' ''7'', FreeDragStart (ex_item ''b''),
                           FreeDropToRanked, FreeScoreChange ''b'' '''']
   = \<lparr>draggedItem = None, itemScores = [(''a'', 7)], rankedItemIds = [''a'', ''b'']\<rparr>"
  by (simp add: free_run_def free_init_def handleDragStart_def handleDropToRanked_free_def
      handleScoreChange_def ex_item_def parse_ex)

lemma ex_tier_run:
  "tier_run ex_rank_list ex_items [TierDragStart (ex_item ''a''), TierDrop (Some 6) ''r1'',
                                   TierDragStart (ex_item ''a''), TierDrop (Some 3) ''r2'']
   = \<lparr>draggedItem = None,
      graph = \<lparr>entities = of_rank_list ex_rank_list # map of_item ex_items,
                relations = [\<lparr>rel_id = ''r2'', rel_from = ''rl'', rel_to = ''a'', rel_score = 3\<rparr>]\<rparr>\<rparr>"
  by (simp add: tier_run_def tier_init_def handleDragStart_def handleDrop_def ex_item_def
      ex_rank_list_def Let_def)

theorem graph_build_relations_witness:
  "length (filter (\<lambda>r. rel_to r = ''a'')
     (relations (buildGraph_slider ex_uuid ex_rank_list ex_items
        (slider_run ex_items [SliderDragStart (ex_item ''a''), SliderDropToRanked,
                              SliderDragStart (ex_item ''b''), SliderDropToRanked])))) = 1
   \<and> length (filter (\<lambda>r. rel_to r = ''c'')
     (relations (buildGraph_slider ex_uuid ex_rank_list ex_items
        (slider_run ex_items [SliderDragStart (ex_item ''a''), SliderDropToRanked,
                              SliderDragStart (ex_item ''b''), SliderDropToRanked])))) = 0
   \<and> length (filter (\<lambda>r. rel_to r = ''a'')
     (relations (buildGraph_free ex_uuid ex_rank_list ex_items
        (free_run parse_decimal [FreeDragStart (ex_item ''a''), FreeDropToRanked,
                           FreeScoreChange ''a'' ''7'', FreeDragStart (ex_item ''b''),
                           FreeDropToRanked, FreeScoreChange ''b'' ''''])))) = 1
   \<and> length (filter (\<lambda>r. rel_to r = ''b'')
     (relations (buildGraph_free ex_uuid ex_rank_list ex_items
        (free_run parse_decimal [FreeDragStart (ex_item ''a''), FreeDropToRanked,
                           FreeScoreChange ''a'' ''7'', FreeDragStart (ex_item ''b''),
                           FreeDropToRanked, FreeScoreChange ''b'' ''''])))) = 0
   \<and> entities (graph (tier_run ex_rank_list ex_items
        [TierDragStart (ex_item ''a''), TierDrop (Some 6) ''r1'',
         TierDragStart (ex_item ''b''), TierDrop (Some 5) ''r2'',
         TierDragStart (ex_item ''b''), TierDrop None ''r3'']))
       = of_rank_list ex_rank_list # map of_item ex_items
   \<and> map (\<lambda>r. (rel_from r, rel_to r, rel_score r))
        (filter (\<lambda>r. rel_to r = ''a'')
          (relations (graph (tier_run ex_rank_list ex_items
            [TierDragStart (ex_item ''a''), TierDrop (Some 6) ''r1'',
             TierDragStart (ex_item ''b''), TierDrop (Some 5) ''r2'',
             TierDragStart (ex_item ''b''), TierDrop None ''r3''])))) = [(''rl'', ''a'', 6)]
   \<and> filter (\<lambda>r. rel_to r = ''b'')
          (relations (graph (tier_run ex_rank_list ex_items
            [TierDragStart (ex_item ''a''), TierDrop (Some 6) ''r1'',
             TierDragStart (ex_item ''b''), TierDrop (Some 5) ''r2'',
             TierDragStart (ex_item ''b''), TierDrop None ''r3'']))) = []
   \<and> filter (\<lambda>r. rel_to r = ''c'')
          (relations (graph (tier_run ex_rank_list ex_items
            [TierDragStart (ex_item ''a''), TierDrop (Some 6) ''r1'',
             TierDragStart (ex_item ''b''), TierDrop (Some 5) ''r2'',
             TierDragStart (ex_item ''b''), TierDrop None ''r3'']))) = []"
proof -
  let ?es = "[SliderDragStart (ex_item ''a''), SliderDropToRanked,
              SliderDragStart (ex_item ''b''), SliderDropToRanked]"
  let ?ef = "[FreeDragStart (ex_item ''a''), FreeDropToRanked,
              FreeScoreChange ''a'' ''7'', FreeDragStart (ex_item ''b''),
              FreeDropToRanked, FreeScoreChange ''b'' '''']"
  let ?et = "[TierDragStart (ex_item ''a''), TierDrop (Some 6) ''r1'',
              TierDragStart (ex_item ''b''), TierDrop (Some 5) ''r2'',
              TierDragStart (ex_item ''b''), TierDrop None ''r3'']"
  note t = graph_build_relations [of ex_items ?es ex_uuid ex_rank_list parse_decimal ?ef ?et,
      unfolded Let_def]
  from t have s: "\<And>i. length (filter (\<lambda>r. rel_to r = i)
        (relations (buildGraph_slider ex_uuid ex_rank_list ex_items (slider_run ex_items ?es)))) =
      (if i \<in> set (rankedItemIds (slider_run ex_items ?es))
          \<and> map_of (itemScores (slider_run ex_items ?es)) i \<noteq> None then 1 else 0)"
    by blast
  from t have f: "\<And>i. length (filter (\<lambda>r. rel_to r = i)
        (relations (buildGraph_free ex_uuid ex_rank_list ex_items (free_run parse_decimal ?ef)))) =
      (if i \<in> set (rankedItemIds (free_run parse_decimal ?ef))
          \<and> map_of (itemScores (free_run parse_decimal ?ef)) i \<noteq> None then 1 else 0)"
    by blast
  from t have e: "entities (graph (tier_run ex_rank_list ex_items ?et))
       = of_rank_list ex_rank_list # map of_item ex_items"
    by blast
  from t have p: "\<And>i. map (\<lambda>r. (rel_from r, rel_to r, rel_score r))
        (filter (\<lambda>r. rel_to r = i) (relations (graph (tier_run ex_rank_list ex_items ?et))))
      = (case spec_tier_placements ?et i of
           Some s \<Rightarrow> [(rl_id ex_rank_list, i, s)] | None \<Rightarrow> [])"
    by blast
  have l: "rl_id ex_rank_list = ''rl''" by (simp add: ex_rank_list_def)
  from p [of "''a''"] p [of "''b''"] p [of "''c''"]
  have q: "map (\<lambda>r. (rel_from r, rel_to r, rel_score r))
        (filter (\<lambda>r. rel_to r = ''a'') (relations (graph (tier_run ex_rank_list ex_items ?et))))
      = [(''rl'', ''a'', 6)]"
    "filter (\<lambda>r. rel_to r = ''b'') (relations (graph (tier_run ex_rank_list ex_items ?et))) = []"
    "filter (\<lambda>r. rel_to r = ''c'') (relations (graph (tier_run ex_rank_list ex_items ?et))) = []"
    unfolding ex_spec_tier l by simp_all
  have sf: "length (filter (\<lambda>r. rel_to r = ''a'')
        (relations (buildGraph_slider ex_uuid ex_rank_list ex_items (slider_run ex_items ?es)))) = 1
      \<and> length (filter (\<lambda>r. rel_to r = ''c'')
        (relations (buildGraph_slider ex_uuid ex_rank_list ex_items (slider_run ex_items ?es)))) = 0
      \<and> length (filter (\<lambda>r. rel_to r = ''a'')
        (relations (buildGraph_free ex_uuid ex_rank_list ex_items (free_run parse_decimal ?ef)))) = 1
      \<and> length (filter (\<lambda>r. rel_to r = ''b'')
        (relations (buildGraph_free ex_uuid ex_rank_list ex_items (free_run parse_decimal ?ef)))) = 0"
    using s [of "''a''"] s [of "''c''"] f [of "''a''"] f [of "''b''"]
    unfolding ex_slider_run ex_free_run by simp
  from sf e q show ?thesis by blast
qed

text \<open>
  Claim C9. Two conversions of the same state to a property graph, each with its own
  sequence of generated identifiers, give the same entities in the same order and
  relations that agree, in order, on \<open>from\<close>, \<open>to\<close> and the properties; only the relation
  identifiers, which are taken from the generator, can differ.
\<close>

theorem two_run_determinism:
  "pg_entities (convertToPropertyGraph_slider randomUUID1 rankListEntity initialItems st)
     = pg_entities (convertToPropertyGraph_slider randomUUID2 rankListEntity initialItems st)
   \<and> map (\<lambda>r. (pgr_from r, pgr_to r, pgr_properties r))
         (pg_relations (convertToPropertyGraph_slider randomUUID1 rankListEntity initialItems st))
     = map (\<lambda>r. (pgr_from r, pgr_to r, pgr_properties r))
         (pg_relations (convertToPropertyGraph_slider randomUUID2 rankListEntity initialItems st))
   \<and> pg_entities (convertToPropertyGraph_free randomUUID1 rankListEntity initialItems st')
     = pg_entities (convertToPropertyGraph_free randomUUID2 rankListEntity initialItems st')
   \<and> map (\<lambda>r. (pgr_from r, pgr_to r, pgr_properties r))
         (pg_relations (convertToPropertyGraph_free randomUUID1 rankListEntity initialItems st'))
     = map (\<lambda>r. (pgr_from r, pgr_to r, pgr_properties r))
         (pg_relations (convertToPropertyGraph_free randomUUID2 rankListEntity initialItems st'))"
  by (simp add: convertToPropertyGraph_slider_def convertToPropertyGraph_free_def
      convertToPropertyGraph_def buildGraph_slider_relations buildGraph_free_relations
      convertRelation_def relationFor_def)
    (simp add: buildGraph_slider_def buildGraph_free_def)

section \<open>The property graph converter\<close>

text \<open>
  Claim C3. The conversion is a total function on knowledge graphs: it returns a property
  graph with one entity for each entity and one relation for each relation, in order. An
  entity whose \<open>rank_type\<close> is \<open>weighted_rank\<close> gets the properties \<open>name\<close> and
  \<open>rank_type\<close>; any other entity that has an \<open>emoji\<close> gets \<open>name\<close> alone; an entity of
  neither shape gets no properties. A relation keeps \<open>id\<close>, \<open>from\<close> and \<open>to\<close>, and its
  properties are the score alone.
\<close>

theorem property_graph_conversion:
  "length (pg_entities (convertToPropertyGraph g)) = length (entities g)
   \<and> length (pg_relations (convertToPropertyGraph g)) = length (relations g)
   \<and> (\<forall>i < length (entities g).
        pge_id (pg_entities (convertToPropertyGraph g) ! i) = ent_id (entities g ! i)
        \<and> (ent_rank_type (entities g ! i) = Some ''weighted_rank'' \<longrightarrow>
             pge_properties (pg_entities (convertToPropertyGraph g) ! i)
               = [(''name'', JString (ent_name (entities g ! i))),
                  (''rank_type'', JString ''weighted_rank'')])
        \<and> (ent_rank_type (entities g ! i) \<noteq> Some ''weighted_rank''
             \<and> ent_emoji (entities g ! i) \<noteq> None \<longrightarrow>
             pge_properties (pg_entities (convertToPropertyGraph g) ! i)
               = [(''name'', JString (ent_name (entities g ! i)))])
        \<and> (ent_rank_type (entities g ! i) \<noteq> Some ''weighted_rank''
             \<and> ent_emoji (entities g ! i) = None \<longrightarrow>
             pge_properties (pg_entities (convertToPropertyGraph g) ! i) = []))
   \<and> (\<forall>j < length (relations g).
        pg_relations (convertToPropertyGraph g) ! j
          = \<lparr>pgr_id = rel_id (relations g ! j), pgr_from = rel_from (relations g ! j),
             pgr_to = rel_to (relations g ! j),
             pgr_properties = [(''score'', JNumber (rel_score (relations g ! j)))]\<rparr>)"
  by (simp add: convertToPropertyGraph_def convertEntity_def convertRelation_def)

theorem property_graph_conversion_witness:
  "pge_properties (pg_entities (convertToPropertyGraph ex_graph) ! 0)
     = [(''name'', JString ''Movies''), (''rank_type'', JString ''weighted_rank'')]
   \<and> pge_properties (pg_entities (convertToPropertyGraph ex_graph) ! 1) = [(''name'', JString ''a'')]
   \<and> pge_properties (pg_entities (convertToPropertyGraph ex_graph) ! 2) = []
   \<and> pg_relations (convertToPropertyGraph ex_graph) ! 0
     = \<lparr>pgr_id = ''r1'', pgr_from = ''rl'', pgr_to = ''a'', pgr_properties = [(''score'', JNumber 6)]\<rparr>"
proof -
  note t = property_graph_conversion [of ex_graph]
  have l: "length (entities ex_graph) = 3" "length (relations ex_graph) = 1"
    by (simp_all add: ex_graph_def)
  have e: "entities ex_graph ! 0 = of_rank_list ex_rank_list"
    "entities ex_graph ! 1 = of_item (ex_item ''a'')"
    "entities ex_graph ! 2 = \<lparr>ent_id = ''x'', ent_name = ''X'', ent_rank_type = Some ''other'', ent_emoji = None\<rparr>"
    "relations ex_graph ! 0 = \<lparr>rel_id = ''r1'', rel_from = ''rl'', rel_to = ''a'', rel_score = 6\<rparr>"
    by (simp_all add: ex_graph_def)
  from t l have a: "\<And>i. i < 3 \<Longrightarrow>
        (ent_rank_type (entities ex_graph ! i) = Some ''weighted_rank'' \<longrightarrow>
             pge_properties (pg_entities (convertToPropertyGraph ex_graph) ! i)
               = [(''name'', JString (ent_name (entities ex_graph ! i))),
                  (''rank_type'', JString ''weighted_rank'')])
        \<and> (ent_rank_type (entities ex_graph ! i) \<noteq> Some ''weighted_rank''
             \<and> ent_emoji (entities ex_graph ! i) \<noteq> None \<longrightarrow>
             pge_properties (pg_entities (convertToPropertyGraph ex_graph) ! i)
               = [(''name'', JString (ent_name (entities ex_graph ! i)))])
        \<and> (ent_rank_type (entities ex_graph ! i) \<noteq> Some ''weighted_rank''
             \<and> ent_emoji (entities ex_graph ! i) = None \<longrightarrow>
             pge_properties (pg_entities (convertToPropertyGraph ex_graph) ! i) = [])"
    by simp
  from t l have b: "pg_relations (convertToPropertyGraph ex_graph) ! 0
          = \<lparr>pgr_id = rel_id (relations ex_graph ! 0), pgr_from = rel_from (relations ex_graph ! 0),
             pgr_to = rel_to (relations ex_graph ! 0),
             pgr_properties = [(''score'', JNumber (rel_score (relations ex_graph ! 0)))]\<rparr>"
    by simp
  from a [of 0] a [of 1] a [of 2] b show ?thesis
    unfolding e by (simp add: of_rank_list_def of_item_def ex_rank_list_def ex_item_def)
qed

section \<open>Tier mode: one tier for each item\<close>

lemma handleDrop_into_tier:
  assumes "draggedItem st = Some d"
  shows "filter (\<lambda>r. rel_to r = item_id d)
           (relations (graph (handleDrop tierListEntity newId (Some y) st)))
         = [\<lparr>rel_id = newId, rel_from = rl_id tierListEntity, rel_to = item_id d, rel_score = y\<rparr>]"
  using assms by (simp add: handleDrop_def Let_def)

lemma tier_not_in_two_tiers:
  assumes d: "distinct (map rel_to (relations (graph st)))" and xy: "x \<noteq> y"
  shows "\<not> (e \<in> set (getItemsForTierScore tierListEntity x st)
           \<and> e \<in> set (getItemsForTierScore tierListEntity y st))"
proof
  assume "e \<in> set (getItemsForTierScore tierListEntity x st)
           \<and> e \<in> set (getItemsForTierScore tierListEntity y st)"
  then obtain r1 r2 where r1: "r1 \<in> set (relations (graph st))" "rel_to r1 = ent_id e" "rel_score r1 = x"
    and r2: "r2 \<in> set (relations (graph st))" "rel_to r2 = ent_id e" "rel_score r2 = y"
    by (auto simp: getItemsForTierScore_def Let_def)
  from d have "inj_on rel_to (set (relations (graph st)))" by (simp add: distinct_map)
  from inj_onD [OF this _ r1(1) r2(1)] r1(2) r2(2) have "r1 = r2" by simp
  with r1 r2 xy show False by simp
qed

text \<open>
  Claim C6. After every sequence of events of the tier page no two relations of the graph
  lead to the same item. A drop of the dragged item into a tier leaves exactly one
  relation to that item, the new one, with the score of the tier. An item is never listed
  in two tiers of different scores.
\<close>

theorem tier_single_tier:
  "distinct (map rel_to (relations (graph (tier_run tierListEntity initialItems evs))))
   \<and> (draggedItem st = Some d \<longrightarrow>
        filter (\<lambda>r. rel_to r = item_id d)
          (relations (graph (handleDrop tierListEntity newId (Some y) st)))
        = [\<lparr>rel_id = newId, rel_from = rl_id tierListEntity, rel_to = item_id d, rel_score = y\<rparr>])
   \<and> (x \<noteq> y \<longrightarrow>
        \<not> (e \<in> set (getItemsForTierScore tierListEntity x (tier_run tierListEntity initialItems evs))
           \<and> e \<in> set (getItemsForTierScore tierListEntity y (tier_run tierListEntity initialItems evs))))"
  using tier_run_distinct handleDrop_into_tier tier_not_in_two_tiers by blast

theorem tier_single_tier_witness:
  "relations (graph (tier_run ex_rank_list ex_items
      [TierDragStart (ex_item ''a''), TierDrop (Some 6) ''r1'',
       TierDragStart (ex_item ''a''), TierDrop (Some 3) ''r2'']))
     = [\<lparr>rel_id = ''r2'', rel_from = ''rl'', rel_to = ''a'', rel_score = 3\<rparr>]
   \<and> filter (\<lambda>r. rel_to r = ''a'')
        (relations (graph (handleDrop ex_rank_list ''r2'' (Some 3)
           (tier_run ex_rank_list ex_items
              [TierDragStart (ex_item ''a''), TierDrop (Some 6) ''r1'', TierDragStart (ex_item ''a'')]))))
     = [\<lparr>rel_id = ''r2'', rel_from = ''rl'', rel_to = ''a'', rel_score = 3\<rparr>]
   \<and> of_item (ex_item ''a'') \<notin> set (getItemsForTierScore ex_rank_list 6
        (tier_run ex_rank_list ex_items
          [TierDragStart (ex_item ''a''), TierDrop (Some 6) ''r1'',
           TierDragStart (ex_item ''a''), TierDrop (Some 3) ''r2'']))
   \<and> of_item (ex_item ''a'') \<in> set (getItemsForTierScore ex_rank_list 3
        (tier_run ex_rank_list ex_items
          [TierDragStart (ex_item ''a''), TierDrop (Some 6) ''r1'',
           TierDragStart (ex_item ''a''), TierDrop (Some 3) ''r2'']))"
proof -
  let ?evs = "[TierDragStart (ex_item ''a''), TierDrop (Some 6) ''r1'',
               TierDragStart (ex_item ''a''), TierDrop (Some 3) ''r2'']"
  let ?pre = "tier_run ex_rank_list ex_items
              [TierDragStart (ex_item ''a''), TierDrop (Some 6) ''r1'', TierDragStart (ex_item ''a'')]"
  have g: "draggedItem ?pre = Some (ex_item ''a'')"
    by (simp add: tier_run_def tier_init_def handleDragStart_def handleDrop_def Let_def)
  have in3: "of_item (ex_item ''a'') \<in> set (getItemsForTierScore ex_rank_list 3
        (tier_run ex_rank_list ex_items ?evs))"
    unfolding ex_tier_run
    by (simp add: getItemsForTierScore_def getItemEntities_def of_item_def of_rank_list_def
        ex_items_def ex_item_def ex_rank_list_def)
  note t = tier_single_tier [of ex_rank_list ex_items ?evs ?pre "ex_item ''a''" "''r2''" 3 6
      "of_item (ex_item ''a'')"]
  from t g have a: "filter (\<lambda>r. rel_to r = item_id (ex_item ''a''))
        (relations (graph (handleDrop ex_rank_list ''r2'' (Some 3) ?pre)))
     = [\<lparr>rel_id = ''r2'', rel_from = rl_id ex_rank_list, rel_to = item_id (ex_item ''a''), rel_score = 3\<rparr>]"
    by blast
  from t in3 have b: "of_item (ex_item ''a'') \<notin> set (getItemsForTierScore ex_rank_list 6
        (tier_run ex_rank_list ex_items ?evs))"
    by auto
  from a b in3 show ?thesis
    by (simp add: ex_tier_run) (simp add: ex_item_def ex_rank_list_def)
qed

section \<open>Free mode: validation of a typed score\<close>

text \<open>
  Claim C8. For a non-empty input, \<open>handleScoreChange\<close> leaves the state as it is when
  the input does not parse to a number or parses to a negative number, and sets the score
  of the item to the parsed number when that number is at least 0.
\<close>

theorem free_score_validation:
  "v \<noteq> '''' \<longrightarrow>
     ((parseFloat v = None \<or> (\<exists>n. parseFloat v = Some n \<and> n < 0)) \<longrightarrow>
        handleScoreChange parseFloat itemId v st = st)
     \<and> (\<forall>n. parseFloat v = Some n \<and> 0 \<le> n \<longrightarrow>
          handleScoreChange parseFloat itemId v st
            = st\<lparr>itemScores := AList.update itemId n (itemScores st)\<rparr>
          \<and> map_of (itemScores (handleScoreChange parseFloat itemId v st)) itemId = Some n)"
  by (auto simp: handleScoreChange_def update_conv')

theorem free_score_validation_witness:
  "handleScoreChange parse_decimal ''a'' ''abc'' \<lparr>draggedItem = None, itemScores = [(''a'', 7)], rankedItemIds = [''a'']\<rparr>
     = \<lparr>draggedItem = None, itemScores = [(''a'', 7)], rankedItemIds = [''a'']\<rparr>
   \<and> handleScoreChange parse_decimal ''a'' ''-2'' \<lparr>draggedItem = None, itemScores = [(''a'', 7)], rankedItemIds = [''a'']\<rparr>
     = \<lparr>draggedItem = None, itemScores = [(''a'', 7)], rankedItemIds = [''a'']\<rparr>
   \<and> handleScoreChange parse_decimal ''a'' ''2.5'' \<lparr>draggedItem = None, itemScores = [(''a'', 7)], rankedItemIds = [''a'']\<rparr>
     = \<lparr>draggedItem = None, itemScores = [(''a'', 5 / 2)], rankedItemIds = [''a'']\<rparr>"
proof -
  let ?st = "\<lparr>draggedItem = None, itemScores = [(''a'', 7 :: rat)], rankedItemIds = [''a'']\<rparr>"
  have n: "''abc'' \<noteq> ''''" "''-2'' \<noteq> ''''" "''2.5'' \<noteq> ''''" by simp_all
  from free_score_validation [of "''abc''" parse_decimal "''a''" ?st] n(1) parse_ex(3)
  have a: "handleScoreChange parse_decimal ''a'' ''abc'' ?st = ?st" by blast
  from free_score_validation [of "''-2''" parse_decimal "''a''" ?st] n(2) parse_ex(2)
  have b: "handleScoreChange parse_decimal ''a'' ''-2'' ?st = ?st" by simp
  from free_score_validation [of "''2.5''" parse_decimal "''a''" ?st] n(3) parse_ex(4)
  have c: "handleScoreChange parse_decimal ''a'' ''2.5'' ?st
           = ?st\<lparr>itemScores := AList.update ''a'' (5 / 2) (itemScores ?st)\<rparr>" by simp
  from a b c show ?thesis by simp
qed

section \<open>The encoder: entities\<close>

lemma mapItemEntity_frame:
  "allOps (mapItemEntity st e) = allOps st"
  "entityOpCount (mapItemEntity st e) = entityOpCount st"
  "propertyOpCount (mapItemEntity st e) = propertyOpCount st"
  "relationOpCount (mapItemEntity st e) = relationOpCount st"
  "map_of (entityIdMap (mapItemEntity st e)) = (map_of (entityIdMap st))(pge_id e \<mapsto> GrcId (generated st))"
  by (simp_all add: mapItemEntity_def IdUtils_generate_def update_conv')

lemma mapItemEntities_frame:
  "allOps (foldl mapItemEntity st es) = allOps st
   \<and> entityOpCount (foldl mapItemEntity st es) = entityOpCount st
   \<and> propertyOpCount (foldl mapItemEntity st es) = propertyOpCount st
   \<and> relationOpCount (foldl mapItemEntity st es) = relationOpCount st"
  by (induction es arbitrary: st) (simp_all add: mapItemEntity_frame)

lemma mapItemEntities_dom:
  "dom (map_of (entityIdMap (foldl mapItemEntity st es)))
     = dom (map_of (entityIdMap st)) \<union> pge_id ` set es"
  by (induction es arbitrary: st) (auto simp: mapItemEntity_frame)

lemma keeps_relations_refl: "keeps_relations st st"
  by (simp add: keeps_relations_def)

lemma keeps_relations_trans:
  "keeps_relations a b \<Longrightarrow> keeps_relations b c \<Longrightarrow> keeps_relations a c"
  by (simp add: keeps_relations_def)

lemma getOrCreateProperty_keeps:
  "keeps_relations st (snd (getOrCreateProperty name dataType st))"
  by (simp add: getOrCreateProperty_def keeps_relations_def Let_def IdUtils_generate_def
      Graph_createProperty_def is_relation_op_def split: option.splits)

lemma getOrCreateProperty_counts:
  "counts_ok st \<Longrightarrow> counts_ok (snd (getOrCreateProperty name dataType st))"
  by (simp add: getOrCreateProperty_def counts_ok_def Let_def IdUtils_generate_def
      Graph_createProperty_def is_relation_op_def is_entity_op_def is_property_op_def
      split: option.splits)

lemma getOrCreateProperty_entityOps:
  "entityOpCount (snd (getOrCreateProperty name dataType st)) = entityOpCount st"
  by (simp add: getOrCreateProperty_def Let_def IdUtils_generate_def
      Graph_createProperty_def split: option.splits)

lemma pushValue_snd:
  "snd (pushValue acc entry) = snd (getOrCreateProperty (fst entry) (getDataType (snd entry)) (snd acc))"
  by (simp add: pushValue_def Let_def split: prod.splits)

lemma pushValues_keeps:
  "keeps_relations (snd acc) (snd (foldl pushValue acc entries))"
proof (induction entries arbitrary: acc)
  case Nil
  show ?case by (simp add: keeps_relations_refl)
next
  case (Cons entry entries)
  have "keeps_relations (snd acc) (snd (pushValue acc entry))"
    unfolding pushValue_snd by (rule getOrCreateProperty_keeps)
  from keeps_relations_trans [OF this Cons.IH] show ?case by simp
qed

lemma pushValues_counts:
  "counts_ok (snd acc) \<Longrightarrow> counts_ok (snd (foldl pushValue acc entries))"
proof (induction entries arbitrary: acc)
  case Nil
  then show ?case by simp
next
  case (Cons entry entries)
  from Cons.prems have "counts_ok (snd (pushValue acc entry))"
    unfolding pushValue_snd by (rule getOrCreateProperty_counts)
  from Cons.IH [OF this] show ?case by simp
qed

lemma pushValues_entityOps:
  "entityOpCount (snd (foldl pushValue acc entries)) = entityOpCount (snd acc)"
  by (induction entries arbitrary: acc) (simp_all add: pushValue_snd getOrCreateProperty_entityOps)

lemma createTierList_split:
  "createTierList t st =
     (let st2 = (snd (IdUtils_generate st))\<lparr>entityIdMap :=
                  AList.update (pge_id t) (GrcId (generated st)) (entityIdMap st)\<rparr>;
          r = foldl pushValue ([], st2) (pge_properties t)
      in (snd r)\<lparr>allOps := allOps (snd r) @
                    [\<lparr>op_payload = CreateEntityOp (GrcId (generated st)) (fst r),
                      op_description = CreateTierListDesc (map_of (pge_properties t) ''name'')\<rparr>],
                  entityOpCount := entityOpCount (snd r) + 1\<rparr>)"
  by (simp add: createTierList_def Let_def IdUtils_generate_def Graph_createEntity_def
      split: prod.splits)

lemma createTierList_facts:
  "entityOpCount (createTierList t st) = entityOpCount st + 1"
  "relationOpCount (createTierList t st) = relationOpCount st"
  "filter is_relation_op (allOps (createTierList t st)) = filter is_relation_op (allOps st)"
  "map_of (entityIdMap (createTierList t st))
     = (map_of (entityIdMap st))(pge_id t \<mapsto> GrcId (generated st))"
proof -
  let ?st2 = "(snd (IdUtils_generate st))\<lparr>entityIdMap :=
                  AList.update (pge_id t) (GrcId (generated st)) (entityIdMap st)\<rparr>"
  let ?r = "foldl pushValue ([], ?st2) (pge_properties t)"
  have k: "keeps_relations ?st2 (snd ?r)"
    using pushValues_keeps [of "([], ?st2)" "pge_properties t"] by simp
  have e: "entityOpCount (snd ?r) = entityOpCount ?st2"
    using pushValues_entityOps [of "([], ?st2)" "pge_properties t"] by simp
  show "entityOpCount (createTierList t st) = entityOpCount st + 1"
    unfolding createTierList_split Let_def using e by (simp add: IdUtils_generate_def)
  show "relationOpCount (createTierList t st) = relationOpCount st"
    unfolding createTierList_split Let_def using k
    by (simp add: keeps_relations_def IdUtils_generate_def)
  show "filter is_relation_op (allOps (createTierList t st)) = filter is_relation_op (allOps st)"
    unfolding createTierList_split Let_def using k
    by (simp add: keeps_relations_def IdUtils_generate_def is_relation_op_def)
  show "map_of (entityIdMap (createTierList t st))
     = (map_of (entityIdMap st))(pge_id t \<mapsto> GrcId (generated st))"
    unfolding createTierList_split Let_def using k
    by (simp add: keeps_relations_def update_conv')
qed

lemma createTierList_counts:
  assumes "counts_ok st"
  shows "counts_ok (createTierList t st)"
proof -
  let ?st2 = "(snd (IdUtils_generate st))\<lparr>entityIdMap :=
                  AList.update (pge_id t) (GrcId (generated st)) (entityIdMap st)\<rparr>"
  let ?r = "foldl pushValue ([], ?st2) (pge_properties t)"
  from assms have "counts_ok ?st2" by (simp add: counts_ok_def IdUtils_generate_def)
  then have "counts_ok (snd ?r)"
    using pushValues_counts [of "([], ?st2)" "pge_properties t"] by simp
  then show ?thesis
    unfolding createTierList_split Let_def
    by (simp add: counts_ok_def is_entity_op_def is_property_op_def is_relation_op_def)
qed

lemma encoder_init_counts: "counts_ok encoder_init"
  by (simp add: counts_ok_def encoder_init_def)

lemma mapItemEntities_counts: "counts_ok st \<Longrightarrow> counts_ok (foldl mapItemEntity st es)"
  using mapItemEntities_frame [of st es] by (simp add: counts_ok_def)

lemma processEntities_counts: "counts_ok (processEntities g)"
  by (simp add: processEntities_def Let_def encoder_init_counts mapItemEntities_counts
      createTierList_counts split: option.splits)

lemma processEntities_no_relations:
  "relationOpCount (processEntities g) = 0"
  "filter is_relation_op (allOps (processEntities g)) = []"
  using mapItemEntities_frame [of encoder_init "filter (\<lambda>e. \<not> isRankList e) (pg_entities g)"]
  by (simp_all add: processEntities_def Let_def createTierList_facts encoder_init_def
      split: option.splits)

lemma processEntities_entityOps:
  "entityOpCount (processEntities g) = (case List.find isRankList (pg_entities g) of Some _ \<Rightarrow> 1 | None \<Rightarrow> 0)"
  using mapItemEntities_frame [of encoder_init "filter (\<lambda>e. \<not> isRankList e) (pg_entities g)"]
  by (simp add: processEntities_def Let_def createTierList_facts encoder_init_def
      split: option.splits)

lemma processEntities_dom:
  "dom (map_of (entityIdMap (processEntities g)))
     = pge_id ` {e \<in> set (pg_entities g). \<not> isRankList e}
       \<union> (case List.find isRankList (pg_entities g) of Some t \<Rightarrow> {pge_id t} | None \<Rightarrow> {})"
  using mapItemEntities_dom [of encoder_init "filter (\<lambda>e. \<not> isRankList e) (pg_entities g)"]
  by (auto simp: processEntities_def Let_def createTierList_facts encoder_init_def
      split: option.splits)

lemma processEntities_no_rank_list:
  assumes "\<forall>e \<in> set (pg_entities g). \<not> isRankList e"
  shows "allOps (processEntities g) = []" "entityOpCount (processEntities g) = 0"
    "propertyOpCount (processEntities g) = 0"
proof -
  from assms have "List.find isRankList (pg_entities g) = None"
    by (simp add: find_None_iff)
  then have "processEntities g = foldl mapItemEntity encoder_init (filter (\<lambda>e. \<not> isRankList e) (pg_entities g))"
    by (simp add: processEntities_def)
  with mapItemEntities_frame [of encoder_init "filter (\<lambda>e. \<not> isRankList e) (pg_entities g)"]
  show "allOps (processEntities g) = []" "entityOpCount (processEntities g) = 0"
    "propertyOpCount (processEntities g) = 0"
    by (simp_all add: encoder_init_def)
qed

section \<open>The encoder: relations\<close>

lemma processRelation_skip:
  "\<not> resolvable st r \<Longrightarrow> processRelation g st r = st\<lparr>generated := Suc (generated st)\<rparr>"
  by (auto simp: processRelation_def resolvable_def IdUtils_generate_def split: option.splits)

lemma processRelation_emit:
  "resolvable st r \<Longrightarrow>
   processRelation g st r =
     st\<lparr>generated := Suc (generated st),
        allOps := allOps st @
          [\<lparr>op_payload = CreateRelationOp (GrcId (generated st))
                (the (map_of (entityIdMap st) (pgr_from r)))
                (the (map_of (entityIdMap st) (pgr_to r)))
                ranksPropertyId
                (map_option (\<lambda>v. [(scorePropertyId, v)]) (map_of (pgr_properties r) ''score'')),
            op_description = RankDesc (itemNameOf g (pgr_to r))
                (tierLabelOf (map_of (pgr_properties r) ''score''))
                (map_of (pgr_properties r) ''score'')\<rparr>],
        relationOpCount := relationOpCount st + 1\<rparr>"
  by (auto simp: processRelation_def resolvable_def IdUtils_generate_def Let_def
      Graph_createRelation_def split: option.splits)

lemma resolvable_cong: "entityIdMap st' = entityIdMap st \<Longrightarrow> resolvable st' = resolvable st"
  by (simp add: resolvable_def fun_eq_iff)

lemma expected_ends_cong: "entityIdMap st' = entityIdMap st \<Longrightarrow> expected_ends st' = expected_ends st"
  by (simp add: expected_ends_def fun_eq_iff)

lemma processRelation_counts: "counts_ok st \<Longrightarrow> counts_ok (processRelation g st r)"
proof (cases "resolvable st r")
  case False
  assume "counts_ok st"
  then show ?thesis unfolding processRelation_skip [OF False] by (simp add: counts_ok_def)
next
  case True
  assume "counts_ok st"
  then show ?thesis unfolding processRelation_emit [OF True]
    by (simp add: counts_ok_def is_entity_op_def is_property_op_def is_relation_op_def)
qed

lemma processRelations_counts: "counts_ok st \<Longrightarrow> counts_ok (foldl (processRelation g) st rs)"
  by (induction rs arbitrary: st) (simp_all add: processRelation_counts)

lemma processRelation_step:
  "entityIdMap (processRelation g st r) = entityIdMap st"
  "entityOpCount (processRelation g st r) = entityOpCount st"
  "propertyOpCount (processRelation g st r) = propertyOpCount st"
  "relationOpCount (processRelation g st r) = relationOpCount st + (if resolvable st r then 1 else 0)"
  "filter is_entity_op (allOps (processRelation g st r)) = filter is_entity_op (allOps st)"
  "filter is_property_op (allOps (processRelation g st r)) = filter is_property_op (allOps st)"
  "List.map_filter relation_ends (allOps (processRelation g st r))
     = List.map_filter relation_ends (allOps st) @ (if resolvable st r then [expected_ends st r] else [])"
  by (cases "resolvable st r";
      simp add: processRelation_skip processRelation_emit is_entity_op_def is_property_op_def
        List.map_filter_def relation_ends_def expected_ends_def)+

lemma processRelations_facts:
  "entityIdMap (foldl (processRelation g) st rs) = entityIdMap st
   \<and> entityOpCount (foldl (processRelation g) st rs) = entityOpCount st
   \<and> propertyOpCount (foldl (processRelation g) st rs) = propertyOpCount st
   \<and> relationOpCount (foldl (processRelation g) st rs)
       = relationOpCount st + length (filter (resolvable st) rs)
   \<and> filter is_entity_op (allOps (foldl (processRelation g) st rs)) = filter is_entity_op (allOps st)
   \<and> filter is_property_op (allOps (foldl (processRelation g) st rs)) = filter is_property_op (allOps st)
   \<and> List.map_filter relation_ends (allOps (foldl (processRelation g) st rs))
       = List.map_filter relation_ends (allOps st) @ map (expected_ends st) (filter (resolvable st) rs)"
proof (induction rs arbitrary: st)
  case Nil
  show ?case by simp
next
  case (Cons r rs)
  let ?st1 = "processRelation g st r"
  have m: "entityIdMap ?st1 = entityIdMap st" by (rule processRelation_step)
  from Cons.IH [of ?st1] show ?case
    unfolding resolvable_cong [OF m] expected_ends_cong [OF m]
    by (simp add: processRelation_step)
qed

lemma processEntities_relations_irrelevant:
  "processEntities (g\<lparr>pg_relations := rs\<rparr>) = processEntities g"
  by (simp add: processEntities_def)

lemma itemNameOf_relations_irrelevant:
  "itemNameOf (g\<lparr>pg_relations := rs\<rparr>) = itemNameOf g"
  by (simp add: itemNameOf_def fun_eq_iff)

lemma prepare_fields:
  "edit_ops (edit (prepareGRC20Edits g md)) = allOps (foldl (processRelation g) (processEntities g) (pg_relations g))"
  "edit_name (edit (prepareGRC20Edits g md)) = editName md"
  "totalOps (prepareGRC20Edits g md) = length (allOps (foldl (processRelation g) (processEntities g) (pg_relations g)))"
  "entityOps (prepareGRC20Edits g md) = entityOpCount (foldl (processRelation g) (processEntities g) (pg_relations g))"
  "propertyOps (prepareGRC20Edits g md) = propertyOpCount (foldl (processRelation g) (processEntities g) (pg_relations g))"
  "relationOps (prepareGRC20Edits g md) = relationOpCount (foldl (processRelation g) (processEntities g) (pg_relations g))"
  by (simp_all add: prepareGRC20Edits_def Let_def)

lemma map_filter_relation_ends_nil:
  "filter is_relation_op ops = [] \<Longrightarrow> List.map_filter relation_ends ops = []"
  by (induction ops)
     (auto simp: List.map_filter_def relation_ends_def is_relation_op_def split: op.splits if_splits)

lemma prepare_relations:
  "relationOps (prepareGRC20Edits g md)
     = length (filter (resolvable (processEntities g)) (pg_relations g))"
  "List.map_filter relation_ends (edit_ops (edit (prepareGRC20Edits g md)))
     = map (expected_ends (processEntities g)) (filter (resolvable (processEntities g)) (pg_relations g))"
  "entityOps (prepareGRC20Edits g md) = entityOpCount (processEntities g)"
  "propertyOps (prepareGRC20Edits g md) = propertyOpCount (processEntities g)"
  "filter is_entity_op (edit_ops (edit (prepareGRC20Edits g md))) = filter is_entity_op (allOps (processEntities g))"
  "filter is_property_op (edit_ops (edit (prepareGRC20Edits g md))) = filter is_property_op (allOps (processEntities g))"
  using processRelations_facts [of g "processEntities g" "pg_relations g"]
  by (simp_all add: prepare_fields processEntities_no_relations map_filter_relation_ends_nil)

lemma prepare_counts:
  "totalOps (prepareGRC20Edits g md) = length (edit_ops (edit (prepareGRC20Edits g md)))"
  "totalOps (prepareGRC20Edits g md)
     = entityOps (prepareGRC20Edits g md) + propertyOps (prepareGRC20Edits g md)
       + relationOps (prepareGRC20Edits g md)"
  using processRelations_counts [where st = "processEntities g" and g = g and rs = "pg_relations g",
      OF processEntities_counts]
  by (simp_all add: prepare_fields counts_ok_def)

lemma find_filter_single: "filter P xs = [t] \<Longrightarrow> List.find P xs = Some t"
  by (induction xs) (auto split: if_splits)

lemma find_in_set: "List.find P xs = Some t \<Longrightarrow> t \<in> set xs"
  by (induction xs) (auto split: if_splits)

lemma processEntities_dom_subset:
  "dom (map_of (entityIdMap (processEntities g))) \<subseteq> pge_id ` set (pg_entities g)"
proof (cases "List.find isRankList (pg_entities g)")
  case None
  then show ?thesis unfolding processEntities_dom by auto
next
  case (Some t)
  then have "t \<in> set (pg_entities g)" by (rule find_in_set)
  with Some show ?thesis unfolding processEntities_dom by auto
qed

lemma unmapped_not_resolvable:
  assumes "pgr_from r \<notin> pge_id ` set (pg_entities g) \<or> pgr_to r \<notin> pge_id ` set (pg_entities g)"
  shows "\<not> resolvable (processEntities g) r"
proof -
  note s = processEntities_dom_subset [of g]
  from assms show ?thesis
  proof
    assume "pgr_from r \<notin> pge_id ` set (pg_entities g)"
    with s have "pgr_from r \<notin> dom (map_of (entityIdMap (processEntities g)))" by blast
    then show ?thesis by (simp add: resolvable_def domIff)
  next
    assume "pgr_to r \<notin> pge_id ` set (pg_entities g)"
    with s have "pgr_to r \<notin> dom (map_of (entityIdMap (processEntities g)))" by blast
    then show ?thesis by (simp add: resolvable_def domIff)
  qed
qed

lemma all_mapped_one_rank_list:
  assumes "filter isRankList (pg_entities g) = [t]"
  shows "dom (map_of (entityIdMap (processEntities g))) = pge_id ` set (pg_entities g)"
    and "List.find isRankList (pg_entities g) = Some t"
proof -
  have f: "List.find isRankList (pg_entities g) = Some t"
    using assms by (rule find_filter_single)
  show "List.find isRankList (pg_entities g) = Some t" by fact
  have "\<And>e. e \<in> set (pg_entities g) \<Longrightarrow> isRankList e \<Longrightarrow> e = t"
  proof -
    fix e assume "e \<in> set (pg_entities g)" "isRankList e"
    then have "e \<in> set (filter isRankList (pg_entities g))" by simp
    with assms show "e = t" by simp
  qed
  moreover have "t \<in> set (pg_entities g)"
  proof -
    have "t \<in> set (filter isRankList (pg_entities g))" using assms by simp
    then show ?thesis by simp
  qed
  ultimately show "dom (map_of (entityIdMap (processEntities g))) = pge_id ` set (pg_entities g)"
    unfolding processEntities_dom f by auto
qed

section \<open>The encoder: the batch\<close>

text \<open>
  Claim C5. A relation one of whose ends has no entry in the table of entity identifiers,
  as is the case when an end is not the identifier of an entity of the graph, gets no
  create-relation operation and does not count: the relation counter is the number of
  resolvable relations, the create-relation operations are those of the resolvable
  relations in order, and the batch with the relation is, in its counters and in what its
  create-relation operations join, the batch without it. The batch is complete: the total
  is the number of its operations and the sum of the three counters.
\<close>

theorem unresolvable_relations_skipped:
  "relationOps (prepareGRC20Edits g md)
     = length (filter (resolvable (processEntities g)) (pg_relations g))
   \<and> List.map_filter relation_ends (edit_ops (edit (prepareGRC20Edits g md)))
     = map (expected_ends (processEntities g)) (filter (resolvable (processEntities g)) (pg_relations g))
   \<and> totalOps (prepareGRC20Edits g md) = length (edit_ops (edit (prepareGRC20Edits g md)))
   \<and> totalOps (prepareGRC20Edits g md)
     = entityOps (prepareGRC20Edits g md) + propertyOps (prepareGRC20Edits g md)
       + relationOps (prepareGRC20Edits g md)
   \<and> (pgr_from r \<notin> pge_id ` set (pg_entities g) \<or> pgr_to r \<notin> pge_id ` set (pg_entities g)
        \<longrightarrow> \<not> resolvable (processEntities g) r)
   \<and> (\<not> resolvable (processEntities g) r \<longrightarrow>
        relationOps (prepareGRC20Edits (g\<lparr>pg_relations := rs1 @ r # rs2\<rparr>) md)
          = relationOps (prepareGRC20Edits (g\<lparr>pg_relations := rs1 @ rs2\<rparr>) md)
        \<and> List.map_filter relation_ends
            (edit_ops (edit (prepareGRC20Edits (g\<lparr>pg_relations := rs1 @ r # rs2\<rparr>) md)))
          = List.map_filter relation_ends
            (edit_ops (edit (prepareGRC20Edits (g\<lparr>pg_relations := rs1 @ rs2\<rparr>) md)))
        \<and> entityOps (prepareGRC20Edits (g\<lparr>pg_relations := rs1 @ r # rs2\<rparr>) md)
          = entityOps (prepareGRC20Edits (g\<lparr>pg_relations := rs1 @ rs2\<rparr>) md)
        \<and> propertyOps (prepareGRC20Edits (g\<lparr>pg_relations := rs1 @ r # rs2\<rparr>) md)
          = propertyOps (prepareGRC20Edits (g\<lparr>pg_relations := rs1 @ rs2\<rparr>) md))"
proof (intro conjI impI)
  show "relationOps (prepareGRC20Edits g md)
     = length (filter (resolvable (processEntities g)) (pg_relations g))"
    by (rule prepare_relations)
  show "List.map_filter relation_ends (edit_ops (edit (prepareGRC20Edits g md)))
     = map (expected_ends (processEntities g)) (filter (resolvable (processEntities g)) (pg_relations g))"
    by (rule prepare_relations)
  show "totalOps (prepareGRC20Edits g md) = length (edit_ops (edit (prepareGRC20Edits g md)))"
    by (rule prepare_counts)
  show "totalOps (prepareGRC20Edits g md)
     = entityOps (prepareGRC20Edits g md) + propertyOps (prepareGRC20Edits g md)
       + relationOps (prepareGRC20Edits g md)"
    by (rule prepare_counts)
next
  assume "pgr_from r \<notin> pge_id ` set (pg_entities g) \<or> pgr_to r \<notin> pge_id ` set (pg_entities g)"
  then show "\<not> resolvable (processEntities g) r" by (rule unmapped_not_resolvable)
next
  assume n: "\<not> resolvable (processEntities g) r"
  show "relationOps (prepareGRC20Edits (g\<lparr>pg_relations := rs1 @ r # rs2\<rparr>) md)
          = relationOps (prepareGRC20Edits (g\<lparr>pg_relations := rs1 @ rs2\<rparr>) md)"
    using n by (simp add: prepare_relations processEntities_relations_irrelevant)
  show "List.map_filter relation_ends
            (edit_ops (edit (prepareGRC20Edits (g\<lparr>pg_relations := rs1 @ r # rs2\<rparr>) md)))
          = List.map_filter relation_ends
            (edit_ops (edit (prepareGRC20Edits (g\<lparr>pg_relations := rs1 @ rs2\<rparr>) md)))"
    using n by (simp add: prepare_relations processEntities_relations_irrelevant)
  show "entityOps (prepareGRC20Edits (g\<lparr>pg_relations := rs1 @ r # rs2\<rparr>) md)
          = entityOps (prepareGRC20Edits (g\<lparr>pg_relations := rs1 @ rs2\<rparr>) md)"
    by (simp add: prepare_relations processEntities_relations_irrelevant)
  show "propertyOps (prepareGRC20Edits (g\<lparr>pg_relations := rs1 @ r # rs2\<rparr>) md)
          = propertyOps (prepareGRC20Edits (g\<lparr>pg_relations := rs1 @ rs2\<rparr>) md)"
    by (simp add: prepare_relations processEntities_relations_irrelevant)
qed

lemma ex_movies_prepared:
  "entityOps (prepareGRC20Edits ex_movies md) = 1"
  "propertyOps (prepareGRC20Edits ex_movies md) = 0"
  "relationOps (prepareGRC20Edits ex_movies md) = 2"
  "totalOps (prepareGRC20Edits ex_movies md) = 3"
  by (simp_all add: prepareGRC20Edits_def processEntities_def processRelation_def
      createTierList_def pushValue_def getOrCreateProperty_def mapItemEntity_def
      IdUtils_generate_def encoder_init_def isRankList_def ex_movies_def Let_def
      getDataType_def iso_date_prefix_def Graph_createEntity_def Graph_createRelation_def)

theorem unresolvable_relations_skipped_witness:
  "\<not> resolvable (processEntities ex_movies)
       \<lparr>pgr_id = ''r0'', pgr_from = ''rl'', pgr_to = ''zz'', pgr_properties = [(''score'', JNumber 5)]\<rparr>
   \<and> relationOps (prepareGRC20Edits ex_dangling None) = 2
   \<and> entityOps (prepareGRC20Edits ex_dangling None) = 1
   \<and> propertyOps (prepareGRC20Edits ex_dangling None) = 0
   \<and> totalOps (prepareGRC20Edits ex_dangling None) = 3"
proof -
  let ?r0 = "\<lparr>pgr_id = ''r0'', pgr_from = ''rl'', pgr_to = ''zz'', pgr_properties = [(''score'', JNumber 5)]\<rparr>"
  let ?r1 = "\<lparr>pgr_id = ''r1'', pgr_from = ''rl'', pgr_to = ''a'', pgr_properties = [(''score'', JNumber 6)]\<rparr>"
  let ?r2 = "\<lparr>pgr_id = ''r2'', pgr_from = ''rl'', pgr_to = ''b'', pgr_properties = [(''score'', JNumber 3)]\<rparr>"
  note t = unresolvable_relations_skipped [of ex_movies None ?r0 "[?r1]" "[?r2]"]
  have z: "pgr_to ?r0 \<notin> pge_id ` set (pg_entities ex_movies)"
    by (simp add: ex_movies_def)
  have d: "ex_movies\<lparr>pg_relations := [?r1] @ ?r0 # [?r2]\<rparr> = ex_dangling"
    "ex_movies\<lparr>pg_relations := [?r1] @ [?r2]\<rparr> = ex_movies"
    by (simp_all add: ex_dangling_def ex_movies_def)
  from t z have n: "\<not> resolvable (processEntities ex_movies) ?r0" by blast
  with t have "relationOps (prepareGRC20Edits (ex_movies\<lparr>pg_relations := [?r1] @ ?r0 # [?r2]\<rparr>) None)
          = relationOps (prepareGRC20Edits (ex_movies\<lparr>pg_relations := [?r1] @ [?r2]\<rparr>) None)"
    "entityOps (prepareGRC20Edits (ex_movies\<lparr>pg_relations := [?r1] @ ?r0 # [?r2]\<rparr>) None)
          = entityOps (prepareGRC20Edits (ex_movies\<lparr>pg_relations := [?r1] @ [?r2]\<rparr>) None)"
    "propertyOps (prepareGRC20Edits (ex_movies\<lparr>pg_relations := [?r1] @ ?r0 # [?r2]\<rparr>) None)
          = propertyOps (prepareGRC20Edits (ex_movies\<lparr>pg_relations := [?r1] @ [?r2]\<rparr>) None)"
    by blast+
  then have e: "relationOps (prepareGRC20Edits ex_dangling None) = 2"
    "entityOps (prepareGRC20Edits ex_dangling None) = 1"
    "propertyOps (prepareGRC20Edits ex_dangling None) = 0"
    unfolding d by (simp_all add: ex_movies_prepared)
  from unresolvable_relations_skipped [of ex_dangling None ?r0 "[]" "[]"]
  have "totalOps (prepareGRC20Edits ex_dangling None)
     = entityOps (prepareGRC20Edits ex_dangling None) + propertyOps (prepareGRC20Edits ex_dangling None)
       + relationOps (prepareGRC20Edits ex_dangling None)"
    by blast
  with e n show ?thesis by simp
qed

lemma getOrCreateProperty_entity_ops:
  "filter is_entity_op (allOps (snd (getOrCreateProperty name dataType st))) = filter is_entity_op (allOps st)"
  by (simp add: getOrCreateProperty_def Let_def IdUtils_generate_def
      Graph_createProperty_def is_entity_op_def split: option.splits)

lemma pushValues_entity_ops:
  "filter is_entity_op (allOps (snd (foldl pushValue acc entries))) = filter is_entity_op (allOps (snd acc))"
  by (induction entries arbitrary: acc) (simp_all add: pushValue_snd getOrCreateProperty_entity_ops)

lemma createTierList_description:
  "map op_description (filter is_entity_op (allOps (createTierList t st)))
     = map op_description (filter is_entity_op (allOps st))
       @ [CreateTierListDesc (map_of (pge_properties t) ''name'')]"
  unfolding createTierList_split Let_def
  by (simp add: pushValues_entity_ops is_entity_op_def IdUtils_generate_def)

lemma processEntities_description:
  assumes "List.find isRankList (pg_entities g) = Some t"
  shows "map op_description (filter is_entity_op (allOps (processEntities g)))
         = [CreateTierListDesc (map_of (pge_properties t) ''name'')]"
  using assms mapItemEntities_frame [of encoder_init "filter (\<lambda>e. \<not> isRankList e) (pg_entities g)"]
  by (simp add: processEntities_def Let_def createTierList_description encoder_init_def)

text \<open>
  Claim C4, as stated, fails where no title is supplied, and where the title is empty: the
  name of the batch is then the constant \<open>Tier List Rank\<close>, not the name of the rank list.
\<close>

theorem encode_movies_counterexample:
  "entityOps (prepareGRC20Edits ex_movies None) = 1
   \<and> relationOps (prepareGRC20Edits ex_movies None) = 2
   \<and> edit_name (edit (prepareGRC20Edits ex_movies None)) = ''Tier List Rank''
   \<and> edit_name (edit (prepareGRC20Edits ex_movies None)) \<noteq> ''Movies''
   \<and> edit_name (edit (prepareGRC20Edits ex_movies (Some \<lparr>title = None, description_text = None\<rparr>)))
       \<noteq> ''Movies''
   \<and> edit_name (edit (prepareGRC20Edits ex_movies (Some \<lparr>title = Some '''', description_text = None\<rparr>)))
       \<noteq> ''''"
  by (simp add: ex_movies_prepared) (simp add: prepareGRC20Edits_def Let_def editName_def)

text \<open>
  Claim C4, amended. For a property graph with exactly one rank-list entity, named
  \<open>Movies\<close>, and two relations with the scores 6 and 3 whose ends are identifiers of
  entities of the graph, the batch counts one entity operation, described with the name
  \<open>Movies\<close>, and two relation operations, carrying the scores 6 and 3. The name of the
  batch is the supplied title when that is a non-empty string, and \<open>Tier List Rank\<close>
  otherwise.
\<close>

theorem encode_movies:
  assumes one: "filter isRankList (pg_entities g) = [t]"
    and name: "map_of (pge_properties t) ''name'' = Some (JString ''Movies'')"
    and rels: "pg_relations g = [r1, r2]"
    and s1: "map_of (pgr_properties r1) ''score'' = Some (JNumber 6)"
    and s2: "map_of (pgr_properties r2) ''score'' = Some (JNumber 3)"
    and ends: "{pgr_from r1, pgr_to r1, pgr_from r2, pgr_to r2} \<subseteq> pge_id ` set (pg_entities g)"
  shows "entityOps (prepareGRC20Edits g md) = 1
       \<and> relationOps (prepareGRC20Edits g md) = 2
       \<and> map op_description (filter is_entity_op (edit_ops (edit (prepareGRC20Edits g md))))
           = [CreateTierListDesc (Some (JString ''Movies''))]
       \<and> map (\<lambda>e. snd (snd (snd e)))
             (List.map_filter relation_ends (edit_ops (edit (prepareGRC20Edits g md))))
           = [Some [(scorePropertyId, JNumber 6)], Some [(scorePropertyId, JNumber 3)]]
       \<and> edit_name (edit (prepareGRC20Edits g md))
           = (case md of
                None \<Rightarrow> ''Tier List Rank''
              | Some m \<Rightarrow>
                  (case title m of
                     None \<Rightarrow> ''Tier List Rank''
                   | Some ti \<Rightarrow> if ti = '''' then ''Tier List Rank'' else ti))"
proof -
  note a = all_mapped_one_rank_list [OF one]
  from ends a(1) have r: "resolvable (processEntities g) r1" "resolvable (processEntities g) r2"
    by (auto simp: resolvable_def domIff [symmetric] simp del: domIff)
  have "entityOps (prepareGRC20Edits g md) = 1"
    by (simp add: prepare_relations processEntities_entityOps a(2))
  moreover have "relationOps (prepareGRC20Edits g md) = 2"
    by (simp add: prepare_relations rels r)
  moreover have "map op_description (filter is_entity_op (edit_ops (edit (prepareGRC20Edits g md))))
           = [CreateTierListDesc (Some (JString ''Movies''))]"
    by (simp add: prepare_relations processEntities_description [OF a(2)] name)
  moreover have "map (\<lambda>e. snd (snd (snd e)))
             (List.map_filter relation_ends (edit_ops (edit (prepareGRC20Edits g md))))
           = [Some [(scorePropertyId, JNumber 6)], Some [(scorePropertyId, JNumber 3)]]"
    by (simp add: prepare_relations rels r expected_ends_def s1 s2)
  moreover have "edit_name (edit (prepareGRC20Edits g md))
           = (case md of
                None \<Rightarrow> ''Tier List Rank''
              | Some m \<Rightarrow>
                  (case title m of
                     None \<Rightarrow> ''Tier List Rank''
                   | Some ti \<Rightarrow> if ti = '''' then ''Tier List Rank'' else ti))"
    by (simp add: prepare_fields editName_def split: option.splits)
  ultimately show ?thesis by simp
qed

theorem encode_movies_witness:
  "entityOps (prepareGRC20Edits ex_movies (Some \<lparr>title = Some ''Films'', description_text = None\<rparr>)) = 1
   \<and> relationOps (prepareGRC20Edits ex_movies (Some \<lparr>title = Some ''Films'', description_text = None\<rparr>)) = 2
   \<and> edit_name (edit (prepareGRC20Edits ex_movies (Some \<lparr>title = Some ''Films'', description_text = None\<rparr>)))
       = ''Films''
   \<and> edit_name (edit (prepareGRC20Edits ex_movies None)) = ''Tier List Rank''"
proof -
  let ?t = "\<lparr>pge_id = ''rl'', pge_properties = [(''name'', JString ''Movies''),
                                              (''rank_type'', JString ''weighted_rank'')]\<rparr>"
  let ?r1 = "\<lparr>pgr_id = ''r1'', pgr_from = ''rl'', pgr_to = ''a'', pgr_properties = [(''score'', JNumber 6)]\<rparr>"
  let ?r2 = "\<lparr>pgr_id = ''r2'', pgr_from = ''rl'', pgr_to = ''b'', pgr_properties = [(''score'', JNumber 3)]\<rparr>"
  have one: "filter isRankList (pg_entities ex_movies) = [?t]"
    by (simp add: ex_movies_def isRankList_def)
  have name: "map_of (pge_properties ?t) ''name'' = Some (JString ''Movies'')" by simp
  have rels: "pg_relations ex_movies = [?r1, ?r2]" by (simp add: ex_movies_def)
  have s1: "map_of (pgr_properties ?r1) ''score'' = Some (JNumber 6)" by simp
  have s2: "map_of (pgr_properties ?r2) ''score'' = Some (JNumber 3)" by simp
  have ends: "{pgr_from ?r1, pgr_to ?r1, pgr_from ?r2, pgr_to ?r2} \<subseteq> pge_id ` set (pg_entities ex_movies)"
    by (simp add: ex_movies_def)
  from encode_movies [OF one name rels s1 s2 ends,
      of "Some \<lparr>title = Some ''Films'', description_text = None\<rparr>"]
    encode_movies [OF one name rels s1 s2 ends, of None]
  show ?thesis by simp
qed

text \<open>
  Claim C10. For a property graph none of whose entities has \<open>rank_type\<close> equal to
  \<open>weighted_rank\<close>, the batch counts no entity operation and no property operation and
  holds no create-entity and no create-property operation: all its operations are
  create-relation operations.
\<close>

theorem no_rank_list_no_entity_ops:
  assumes "\<forall>e \<in> set (pg_entities g). \<not> isRankList e"
  shows "entityOps (prepareGRC20Edits g md) = 0
       \<and> propertyOps (prepareGRC20Edits g md) = 0
       \<and> filter is_entity_op (edit_ops (edit (prepareGRC20Edits g md))) = []
       \<and> filter is_property_op (edit_ops (edit (prepareGRC20Edits g md))) = []
       \<and> totalOps (prepareGRC20Edits g md) = length (edit_ops (edit (prepareGRC20Edits g md)))
       \<and> totalOps (prepareGRC20Edits g md) = relationOps (prepareGRC20Edits g md)"
  using processEntities_no_rank_list [OF assms] prepare_counts [of g md]
  by (simp add: prepare_relations)

theorem no_rank_list_no_entity_ops_witness:
  "entityOps (prepareGRC20Edits ex_items_only None) = 0
   \<and> propertyOps (prepareGRC20Edits ex_items_only None) = 0
   \<and> totalOps (prepareGRC20Edits ex_items_only None)
       = relationOps (prepareGRC20Edits ex_items_only None)"
proof -
  have "\<forall>e \<in> set (pg_entities ex_items_only). \<not> isRankList e"
    by (simp add: ex_items_only_def isRankList_def)
  from no_rank_list_no_entity_ops [OF this, of None] show ?thesis by simp
qed

end
